theory Spec2Isabelle
  imports Complex_Main "HOL-Library.Char_ord"
begin

section \<open>Python values\<close>

text \<open>
  The panel keeps its presets as a JSON document, and the code handles what
  \<^verbatim>\<open>json.load\<close> returns as dynamically typed Python values. \<open>pyval\<close> is the
  type of those values: \<^verbatim>\<open>None\<close>, booleans, integers, floats, strings, lists, and
  dictionaries with string keys (in insertion order, keys distinct).

  A Python float is modelled by the rational number it denotes. Every finite double is
  a rational, and \<^verbatim>\<open>==\<close> on finite doubles is equality of the numbers they denote.
  NaN, the infinities, overflow and the rounding of an integer beyond \<open>2^53\<close> are
  outside the model.
\<close>

type_synonym pyfloat = rat

datatype pyval =
    PNone
  | PBool bool
  | PInt int
  | PFloat pyfloat
  | PStr string
  | PList "pyval list"
  | PDict "(string \<times> pyval) list"

text \<open>
  Exceptions are values. \<open>OutsideModel\<close> is not a Python exception: it marks the
  few calls whose result the model does not determine (\<^verbatim>\<open>float\<close> and
  \<^verbatim>\<open>int\<close> of a string, \<^verbatim>\<open>float\<close> of an integer beyond \<open>2^53\<close>, which
  Python rounds, a slider created with a value outside its range), so that no theorem
  says anything about them.
\<close>

datatype error =
    AttributeError
  | TypeError
  | IndexError
  | KeyError
  | ValueError
  | OSError
  | JSONDecodeError
  | RuntimeError
  | OutsideModel

definition bindE :: "error + 'a \<Rightarrow> ('a \<Rightarrow> error + 'b) \<Rightarrow> error + 'b" where
  "bindE m f = (case m of Inl e \<Rightarrow> Inl e | Inr x \<Rightarrow> f x)"

text \<open>\<^verbatim>\<open>bool(v)\<close>, as \<^verbatim>\<open>if v:\<close> and \<^verbatim>\<open>if not v:\<close> use it.\<close>

fun truthy :: "pyval \<Rightarrow> bool" where
  "truthy PNone = False"
| "truthy (PBool b) = b"
| "truthy (PInt i) = (i \<noteq> 0)"
| "truthy (PFloat x) = (x \<noteq> 0)"
| "truthy (PStr s) = (s \<noteq> [])"
| "truthy (PList xs) = (xs \<noteq> [])"
| "truthy (PDict d) = (d \<noteq> [])"

text \<open>\<^verbatim>\<open>d[k] = v\<close> on a dictionary: an existing key keeps its place.\<close>

fun dict_set :: "('k \<times> 'v) list \<Rightarrow> 'k \<Rightarrow> 'v \<Rightarrow> ('k \<times> 'v) list" where
  "dict_set [] k v = [(k, v)]"
| "dict_set ((k', v') # d) k v =
     (if k' = k then (k, v) # d else (k', v') # dict_set d k v)"

text \<open>\<^verbatim>\<open>v.get(k, default)\<close>: only a dictionary has the method.\<close>

fun py_get :: "pyval \<Rightarrow> string \<Rightarrow> pyval \<Rightarrow> error + pyval" where
  "py_get (PDict d) k dflt = Inr (case map_of d k of None \<Rightarrow> dflt | Some v \<Rightarrow> v)"
| "py_get _ k dflt = Inl AttributeError"

text \<open>\<^verbatim>\<open>int(x)\<close> of a float truncates towards zero.\<close>

definition trunc :: "pyfloat \<Rightarrow> int" where
  "trunc x = (if 0 \<le> x then \<lfloor>x\<rfloor> else \<lceil>x\<rceil>)"

fun py_float :: "pyval \<Rightarrow> error + pyfloat" where
  "py_float (PBool b) = Inr (if b then 1 else 0)"
| "py_float (PInt i) =
     (if - (2 ^ 53) \<le> i \<and> i \<le> 2 ^ 53 then Inr (of_int i) else Inl OutsideModel)"
| "py_float (PFloat x) = Inr x"
| "py_float (PStr s) = Inl OutsideModel"
| "py_float _ = Inl TypeError"

fun py_int :: "pyval \<Rightarrow> error + int" where
  "py_int (PBool b) = Inr (if b then 1 else 0)"
| "py_int (PInt i) = Inr i"
| "py_int (PFloat x) = Inr (trunc x)"
| "py_int (PStr s) = Inl OutsideModel"
| "py_int _ = Inl TypeError"

text \<open>\<^verbatim>\<open>x >= 0\<close>: defined on numbers (a boolean is one), a TypeError otherwise.\<close>

fun py_ge0 :: "pyval \<Rightarrow> error + bool" where
  "py_ge0 (PBool b) = Inr True"
| "py_ge0 (PInt i) = Inr (0 \<le> i)"
| "py_ge0 (PFloat x) = Inr (0 \<le> x)"
| "py_ge0 _ = Inl TypeError"

text \<open>\<^verbatim>\<open>v[i]\<close> for a literal index \<open>i \<ge> 0\<close>.\<close>

fun py_index :: "pyval \<Rightarrow> nat \<Rightarrow> error + pyval" where
  "py_index (PList xs) i = (if i < length xs then Inr (xs ! i) else Inl IndexError)"
| "py_index (PStr s) i = (if i < length s then Inr (PStr [s ! i]) else Inl IndexError)"
| "py_index (PDict d) i = Inl KeyError"
| "py_index _ i = Inl TypeError"

text \<open>
  \<^verbatim>\<open>a == b\<close>. Booleans, integers and floats compare by the number they denote
  (\<^verbatim>\<open>1 == 1.0\<close>, \<^verbatim>\<open>True == 1\<close>); lists compare element by element;
  dictionaries compare as sets of items; values of different kinds are unequal.
\<close>

fun num_of :: "pyval \<Rightarrow> pyfloat option" where
  "num_of (PBool b) = Some (if b then 1 else 0)"
| "num_of (PInt i) = Some (of_int i)"
| "num_of (PFloat x) = Some x"
| "num_of _ = None"

function py_eq :: "pyval \<Rightarrow> pyval \<Rightarrow> bool"
  and py_eq_list :: "pyval list \<Rightarrow> pyval list \<Rightarrow> bool"
  and py_eq_items :: "(string \<times> pyval) list \<Rightarrow> (string \<times> pyval) list \<Rightarrow> bool"
where
  "py_eq a b =
     (case (a, b) of
        (PNone, PNone) \<Rightarrow> True
      | (PStr s, PStr t) \<Rightarrow> s = t
      | (PList xs, PList ys) \<Rightarrow> py_eq_list xs ys
      | (PDict d, PDict e) \<Rightarrow> length d = length e \<and> py_eq_items d e
      | _ \<Rightarrow> (case (num_of a, num_of b) of (Some x, Some y) \<Rightarrow> x = y | _ \<Rightarrow> False))"
| "py_eq_list [] ys = (ys = [])"
| "py_eq_list (x # xs) ys =
     (case ys of [] \<Rightarrow> False | y # ys' \<Rightarrow> py_eq x y \<and> py_eq_list xs ys')"
| "py_eq_items [] e = True"
| "py_eq_items ((k, v) # d) e =
     ((case map_of e k of None \<Rightarrow> False | Some w \<Rightarrow> py_eq v w) \<and> py_eq_items d e)"
  by pat_completeness auto
termination
  by (relation "measure (\<lambda>x. case x of
         Inl (a, b) \<Rightarrow> size a
       | Inr (Inl (xs, ys)) \<Rightarrow> size_list size xs
       | Inr (Inr (d, e)) \<Rightarrow> size_list (size_prod (\<lambda>x. 0) size) d)") auto


section \<open>Config store\<close>

text \<open>
  The state of the file at \<^verbatim>\<open>CONFIG_PATH\<close>, as far as the code can tell states apart:
  \<^item> \<open>Absent\<close>: \<^verbatim>\<open>os.path.exists\<close> is false;
  \<^item> \<open>Unreadable\<close>: the path exists and \<^verbatim>\<open>open(CONFIG_PATH, "r")\<close> raises
    (no permission, a directory);
  \<^item> \<open>NotJson\<close>: the file opens and \<^verbatim>\<open>json.load\<close> raises on its text (an empty
    or truncated file is such a text);
  \<^item> \<open>JsonText v\<close>: the file holds a JSON text that \<^verbatim>\<open>json.load\<close> reads as \<open>v\<close>.

  \<^verbatim>\<open>json.dump\<close> and \<^verbatim>\<open>json.load\<close> are Python's library, not this program: the model
  takes from the library that the text \<^verbatim>\<open>json.dump\<close> writes for a value of
  \<open>pyval\<close> is read back by \<^verbatim>\<open>json.load\<close> as that value, and that no proper prefix of
  the text of a dictionary is a JSON text.
\<close>

datatype file_state = Absent | Unreadable | NotJson | JsonText pyval

definition path_exists :: "file_state \<Rightarrow> bool" where
  "path_exists f = (f \<noteq> Absent)"

text \<open>\<^verbatim>\<open>with open(CONFIG_PATH, "r") as f: return json.load(f)\<close>\<close>

fun open_and_load :: "file_state \<Rightarrow> error + pyval" where
  "open_and_load Absent = Inl OSError"
| "open_and_load Unreadable = Inl OSError"
| "open_and_load NotJson = Inl JSONDecodeError"
| "open_and_load (JsonText v) = Inr v"

definition read_json_config :: "file_state \<Rightarrow> error + pyval" where
  "read_json_config f =
     (if path_exists f then
        (case open_and_load f of
           Inr v \<Rightarrow> Inr v
         | Inl e \<Rightarrow> Inr (PDict []))
      else Inr (PDict []))"

text \<open>
  What the file system does during one \<^verbatim>\<open>write_json_config\<close>:
  \<^item> \<open>OpenFails\<close>: \<^verbatim>\<open>open(CONFIG_PATH, "w")\<close> raises, the file is as it was;
  \<^item> \<open>WriteFails\<close>: the file is opened, which creates or empties it, and writing or
    flushing the text raises before the text is complete;
  \<^item> \<open>WriteOk\<close>: the whole text is written.
  The second component of the result is what the user is shown: the in-view message
  of a completed save, or the warning of the \<^verbatim>\<open>except\<close> branch.
\<close>

datatype io_outcome = OpenFails | WriteFails | WriteOk

datatype user_message = SavedMessage | WarningMessage error

fun open_and_dump :: "io_outcome \<Rightarrow> file_state \<Rightarrow> pyval \<Rightarrow> file_state \<times> (error + unit)" where
  "open_and_dump OpenFails f data = (f, Inl OSError)"
| "open_and_dump WriteFails f data = (NotJson, Inl OSError)"
| "open_and_dump WriteOk f data = (JsonText data, Inr ())"

definition write_json_config ::
  "io_outcome \<Rightarrow> file_state \<Rightarrow> pyval \<Rightarrow> file_state \<times> user_message" where
  "write_json_config io f data =
     (case open_and_dump io f data of
        (f', Inr u) \<Rightarrow> (f', SavedMessage)
      | (f', Inl e) \<Rightarrow> (f', WarningMessage e))"


section \<open>Block state\<close>

definition INDEXED_COLORS :: "(int \<times> string) list" where
  "INDEXED_COLORS =
     [(0, ''Gray''), (1, ''Black''), (2, ''Dark Gray''), (3, ''Light Gray''), (4, ''Red''),
      (5, ''Dark Blue''), (6, ''Bright Blue''), (7, ''Green 1''), (8, ''Dark Purple''),
      (9, ''Pink''), (10, ''Brown''), (11, ''Dark Brown''), (12, ''Dark Red''),
      (13, ''Bright Red''), (14, ''Bright Green''), (15, ''Blue 1''), (16, ''White''),
      (17, ''Yellow''), (18, ''Light Blue''), (19, ''Light Green''), (20, ''Light Pink''),
      (21, ''Light Orange''), (22, ''Light Yellow''), (23, ''Green 2''), (24, ''Dark Orange''),
      (25, ''Dark Yellow''), (26, ''Green 3''), (27, ''Green 4''), (28, ''Blue 2''),
      (29, ''Blue 3''), (30, ''Purple''), (31, ''Dark Pink'')]"

fun str_nat :: "nat \<Rightarrow> string" where
  "str_nat n =
     (if n < 10 then [char_of (48 + n)] else str_nat (n div 10) @ [char_of (48 + n mod 10)])"

definition str_int :: "int \<Rightarrow> string" where
  "str_int i = (if i < 0 then CHR ''-'' # str_nat (nat (- i)) else str_nat (nat i))"

text \<open>\<^verbatim>\<open>INDEXED_COLORS.get(idx, f"Index {idx}")\<close>\<close>

definition color_name :: "int \<Rightarrow> string" where
  "color_name idx =
     (case map_of INDEXED_COLORS idx of Some n \<Rightarrow> n | None \<Rightarrow> ''Index '' @ str_int idx)"

text \<open>
  One entry of \<^verbatim>\<open>blocks_dict\<close>. The source stores the handles of the block's
  widgets; the host keeps one slider, one label and one swatch per block, so the
  record holds what each widget shows: \<open>slider\<close> is the value of the block's
  \<^verbatim>\<open>intSlider\<close> (the block's index), \<open>label\<close> the label's text, \<open>swatch\<close> the
  canvas colour. \<open>rgb\<close> is \<open>PNone\<close> for Python's \<^verbatim>\<open>None\<close>.

  The swatch shows either an explicit colour, \<open>Rgb v\<close>, or \<open>IndexColor idx\<close>: the
  colour the host's palette gives for \<open>idx\<close> (\<^verbatim>\<open>cmds.colorIndex(idx, q=True)\<close>),
  black when that query raises.
\<close>

datatype swatch_color = IndexColor int | Rgb pyval

record block =
  slider :: int
  rgb :: pyval
  lastIndex :: int
  label :: string
  swatch :: swatch_color

type_synonym blocks = "(string \<times> block) list"

text \<open>
  \<^verbatim>\<open>cmds.intSlider(min=-1, max=31, value=saved_idx, step=1)\<close>: the slider shows an
  integer of its range. What the host does with any other value is not modelled.
\<close>

fun intSlider_new :: "pyval \<Rightarrow> error + int" where
  "intSlider_new (PInt i) = (if -1 \<le> i \<and> i \<le> 31 then Inr i else Inl OutsideModel)"
| "intSlider_new _ = Inl OutsideModel"

definition add_color_index_block ::
  "string \<Rightarrow> int \<Rightarrow> pyval \<Rightarrow> blocks \<Rightarrow> error + blocks" where
  "add_color_index_block title default_index saved_data blocks_dict =
     bindE (if truthy saved_data then py_get saved_data ''index'' (PInt default_index)
            else Inr (PInt default_index)) (\<lambda>saved_idx.
     bindE (if truthy saved_data then py_get saved_data ''rgb'' PNone else Inr PNone) (\<lambda>saved_rgb.
     bindE (intSlider_new saved_idx) (\<lambda>idx.
       let (rgbv, label_text, last_index) =
             (if idx = -1 \<and> truthy saved_rgb
              then (Rgb saved_rgb, ''Selected: Custom RGB'', default_index)
              else (IndexColor idx, ''Selected: '' @ color_name idx, idx))
       in Inr (dict_set blocks_dict title
                 \<lparr>slider = idx,
                  rgb = (if idx = -1 then saved_rgb else PNone),
                  lastIndex = last_index,
                  label = label_text,
                  swatch = rgbv\<rparr>))))"

text \<open>
  The drag callback. The host has already moved the slider when it calls it, so the
  function reads the new value from the slider.
\<close>

definition update_color_block :: "blocks \<Rightarrow> string \<Rightarrow> error + blocks" where
  "update_color_block blocks_dict title =
     (case map_of blocks_dict title of
        None \<Rightarrow> Inl KeyError
      | Some b \<Rightarrow>
          let idx = slider b in
          if idx = -1 then
            (let custom_rgb = rgb b in
             if \<not> truthy custom_rgb
             then Inr (dict_set blocks_dict title (b\<lparr>slider := lastIndex b\<rparr>))
             else Inr (dict_set blocks_dict title
                         (b\<lparr>swatch := Rgb custom_rgb, label := ''Selected: Custom RGB''\<rparr>)))
          else Inr (dict_set blocks_dict title
                      (b\<lparr>lastIndex := idx,
                         swatch := IndexColor idx,
                         label := ''Selected: '' @ color_name idx\<rparr>)))"

text \<open>The user drags the slider of block \<open>title\<close> to \<open>v\<close>: the host stores \<open>v\<close> and runs the callback.\<close>

definition slider_dragged :: "blocks \<Rightarrow> string \<Rightarrow> int \<Rightarrow> error + blocks" where
  "slider_dragged blocks_dict title v =
     (case map_of blocks_dict title of
        None \<Rightarrow> Inl KeyError
      | Some b \<Rightarrow> update_color_block (dict_set blocks_dict title (b\<lparr>slider := v\<rparr>)) title)"

text \<open>
  \<open>picked\<close> is the result of the host's colour editor: \<open>None\<close> when the user
  cancels, the three floats of the chosen colour otherwise.
\<close>

definition create_custom_color ::
  "(pyfloat \<times> pyfloat \<times> pyfloat) option \<Rightarrow> string \<Rightarrow> blocks \<Rightarrow> error + blocks" where
  "create_custom_color picked title blocks_dict =
     (case picked of
        None \<Rightarrow> Inr blocks_dict
      | Some (r, g, b) \<Rightarrow>
          let rgbv = PList [PFloat r, PFloat g, PFloat b] in
          (case map_of blocks_dict title of
             None \<Rightarrow> Inl KeyError
           | Some blk \<Rightarrow>
               Inr (dict_set blocks_dict title
                      (blk\<lparr>rgb := rgbv, slider := -1, swatch := Rgb rgbv,
                           label := ''Selected: Custom RGB''\<rparr>))))"

text \<open>
  The apply button writes a colour override onto the selected shapes and leaves
  \<^verbatim>\<open>blocks_dict\<close> and the widgets as they are. The result is the override it asks
  the host for: an index, or the colour of the swatch. The source gets the slider and the
  swatch as arguments; here they are found under the block's title, and a title without
  block (which no button has) is a \<open>KeyError\<close>.
\<close>

datatype override = OverrideIndex int | OverrideRGB swatch_color

definition apply_color_button :: "blocks \<Rightarrow> string \<Rightarrow> error + (blocks \<times> override)" where
  "apply_color_button blocks_dict title =
     (case map_of blocks_dict title of
        None \<Rightarrow> Inl KeyError
      | Some b \<Rightarrow>
          let idx = slider b; rgbv = swatch b in
          if idx \<ge> 0 then Inr (blocks_dict, OverrideIndex idx)
          else Inr (blocks_dict, OverrideRGB rgbv))"

section \<open>Save and compare\<close>

definition saved_entry :: "block \<Rightarrow> pyval" where
  "saved_entry info =
     (let idx = slider info in
      if idx \<ge> 0
      then PDict [(''index'', PInt idx), (''name'', PStr (color_name idx))]
      else PDict [(''index'', PInt (-1)), (''rgb'', rgb info)])"

fun save_loop :: "(string \<times> pyval) list \<Rightarrow> blocks \<Rightarrow> (string \<times> pyval) list" where
  "save_loop data [] = data"
| "save_loop data ((title, info) # rest) = save_loop (dict_set data title (saved_entry info)) rest"

text \<open>The dictionary \<^verbatim>\<open>data\<close> that \<^verbatim>\<open>save_config\<close> hands to \<^verbatim>\<open>write_json_config\<close>.\<close>

definition save_config_data :: "blocks \<Rightarrow> pyfloat \<Rightarrow> int \<Rightarrow> (string \<times> pyval) list" where
  "save_config_data blocks curve_width sample_rate =
     dict_set (save_loop [] blocks) ''RenderRigControls''
       (PDict [(''curveWidth'', PFloat curve_width), (''sampleRate'', PInt sample_rate)])"

definition save_config ::
  "io_outcome \<Rightarrow> file_state \<Rightarrow> blocks \<Rightarrow> pyfloat \<Rightarrow> int \<Rightarrow> file_state \<times> user_message" where
  "save_config io f blocks curve_width sample_rate =
     write_json_config io f (PDict (save_config_data blocks curve_width sample_rate))"

definition normalize_saved_block :: "pyval \<Rightarrow> error + pyval" where
  "normalize_saved_block block =
     (if \<not> truthy block then Inr PNone
      else bindE (py_get block ''index'' PNone) (\<lambda>idx.
        if idx = PNone then Inr PNone
        else bindE (py_ge0 idx) (\<lambda>nonneg.
          if nonneg then bindE (py_int idx) (\<lambda>i. Inr (PDict [(''index'', PInt i)]))
          else bindE (py_get block ''rgb'' PNone) (\<lambda>rgbv.
            if rgbv = PNone then Inr (PDict [(''index'', PInt (-1))])
            else bindE (bindE (py_index rgbv 0) py_float) (\<lambda>r0.
                 bindE (bindE (py_index rgbv 1) py_float) (\<lambda>r1.
                 bindE (bindE (py_index rgbv 2) py_float) (\<lambda>r2.
                   Inr (PDict [(''index'', PInt (-1)),
                               (''rgb'', PList [PFloat r0, PFloat r1, PFloat r2])]))))))))"

definition current_entry :: "block \<Rightarrow> pyval" where
  "current_entry info =
     (let slider_val = slider info in
      if slider_val \<ge> 0 then PDict [(''index'', PInt slider_val)]
      else PDict [(''index'', PInt (-1)), (''rgb'', rgb info)])"

fun current_loop :: "(string \<times> pyval) list \<Rightarrow> blocks \<Rightarrow> (string \<times> pyval) list" where
  "current_loop current [] = current"
| "current_loop current ((title, info) # rest) =
     current_loop (dict_set current title (current_entry info)) rest"

text \<open>The \<^verbatim>\<open>for k, v in current.items()\<close> loop; \<open>Inr False\<close> is falling out of it.\<close>

fun compare_loop :: "pyval \<Rightarrow> (string \<times> pyval) list \<Rightarrow> error + bool" where
  "compare_loop saved_config [] = Inr False"
| "compare_loop saved_config ((k, v) # rest) =
     (if k = ''RenderRigControls'' then compare_loop saved_config rest
      else bindE (py_get saved_config k (PDict [])) (\<lambda>saved_block.
           bindE (normalize_saved_block saved_block) (\<lambda>saved_norm.
             if saved_norm = PNone then Inr True
             else bindE (py_get v ''index'' PNone) (\<lambda>v_index.
                  bindE (py_get saved_norm ''index'' PNone) (\<lambda>s_index.
                    if \<not> py_eq v_index s_index then Inr True
                    else if py_eq v_index (PInt (-1)) then
                      bindE (py_get saved_norm ''rgb'' PNone) (\<lambda>saved_rgb.
                      bindE (py_get v ''rgb'' PNone) (\<lambda>cur_rgb.
                        if saved_rgb = PNone \<and> cur_rgb = PNone then compare_loop saved_config rest
                        else if \<not> py_eq saved_rgb cur_rgb then Inr True
                        else compare_loop saved_config rest))
                    else compare_loop saved_config rest)))))"

text \<open>
  \<open>f\<close> is the config file as \<^verbatim>\<open>read_json_config\<close> finds it; \<open>curve_width\<close>
  and \<open>sample_rate\<close> are the values of the two render fields.
\<close>

definition has_unsaved_changes ::
  "file_state \<Rightarrow> blocks \<Rightarrow> pyfloat \<Rightarrow> int \<Rightarrow> error + bool" where
  "has_unsaved_changes f blocks curve_width sample_rate =
     bindE (read_json_config f) (\<lambda>saved_config.
       let current = dict_set (current_loop [] blocks) ''RenderRigControls''
                       (PDict [(''curveWidth'', PFloat curve_width),
                               (''sampleRate'', PInt sample_rate)])
       in if \<not> truthy saved_config then Inr True
          else bindE (py_get saved_config ''RenderRigControls'' (PDict [])) (\<lambda>saved_rig.
               bindE (bindE (py_get saved_rig ''curveWidth'' (PFloat 0)) py_float) (\<lambda>cw.
                 if cw \<noteq> curve_width then Inr True
                 else bindE (bindE (py_get saved_rig ''sampleRate'' (PInt 1)) py_int) (\<lambda>sr.
                   if sr \<noteq> sample_rate then Inr True
                   else compare_loop saved_config current))))"


section \<open>Shading pair\<close>



















section \<open>The shapes and invariants the spec states\<close>

fun is_float_triple :: "pyval \<Rightarrow> bool" where
  "is_float_triple (PList [PFloat r, PFloat g, PFloat b]) = True"
| "is_float_triple _ = False"

text \<open>
  The spec's block value: exactly \<^verbatim>\<open>{"index": int}\<close> with an index of the palette,
  or exactly \<^verbatim>\<open>{"index": -1, "rgb": [float, float, float]}\<close>.
\<close>

definition documented_block :: "pyval \<Rightarrow> bool" where
  "documented_block v =
     (case v of
        PDict e \<Rightarrow>
          (case map_of e ''index'' of
             Some (PInt i) \<Rightarrow>
               if 0 \<le> i then i \<le> 31 \<and> map fst e = [''index'']
               else i = -1 \<and> set (map fst e) = {''index'', ''rgb''} \<and> length e = 2
                    \<and> (case map_of e ''rgb'' of Some r \<Rightarrow> is_float_triple r | None \<Rightarrow> False)
           | _ \<Rightarrow> False)
      | _ \<Rightarrow> False)"

text \<open>
  A saved block value that carries the documented fields, whatever other keys it has
  (\<^verbatim>\<open>save_config\<close> adds one): every documented block is readable.
\<close>

definition readable_block :: "pyval \<Rightarrow> bool" where
  "readable_block v =
     (case v of
        PDict e \<Rightarrow>
          (case map_of e ''index'' of
             Some (PInt i) \<Rightarrow>
               if 0 \<le> i then i \<le> 31
               else i = -1 \<and> (case map_of e ''rgb'' of Some r \<Rightarrow> is_float_triple r | None \<Rightarrow> False)
           | _ \<Rightarrow> False)
      | _ \<Rightarrow> False)"

text \<open>
  The saved render settings of a document: the \<^verbatim>\<open>RenderRigControls\<close> record
  \<^verbatim>\<open>{"curveWidth": float, "sampleRate": int}\<close>, or the defaults 0.0 and 1 that the
  comparison uses for a document without the record. \<open>None\<close> for any other shape.
\<close>

definition saved_render :: "(string \<times> pyval) list \<Rightarrow> (pyfloat \<times> int) option" where
  "saved_render d =
     (case map_of d ''RenderRigControls'' of
        None \<Rightarrow> Some (0, 1)
      | Some (PDict e) \<Rightarrow>
          (case (map_of e ''curveWidth'', map_of e ''sampleRate'') of
             (Some (PFloat w), Some (PInt n)) \<Rightarrow> Some (w, n)
           | _ \<Rightarrow> None)
      | Some _ \<Rightarrow> None)"

text \<open>The index of a block as the comparison sees it.\<close>

definition cur_index :: "block \<Rightarrow> int" where
  "cur_index info = (if 0 \<le> slider info then slider info else -1)"

text \<open>
  Step 3 and 4 of the spec's algorithm for one block, against the saved value under
  the block's title: the title is absent, the indices differ, or both are custom and
  the rgb values differ (for two triples, in some component; a missing rgb counts as
  \<^verbatim>\<open>None\<close>).
\<close>

definition block_differs :: "block \<Rightarrow> pyval option \<Rightarrow> bool" where
  "block_differs info saved =
     (case saved of
        Some (PDict e) \<Rightarrow>
          (case map_of e ''index'' of
             Some (PInt i) \<Rightarrow>
               cur_index info \<noteq> i
               \<or> (cur_index info = -1
                   \<and> (case map_of e ''rgb'' of None \<Rightarrow> PNone | Some r \<Rightarrow> r) \<noteq> rgb info)
           | _ \<Rightarrow> True)
      | _ \<Rightarrow> True)"

text \<open>The spec's algorithm, steps 1 to 5.\<close>

definition spec_changed :: "(string \<times> pyval) list \<Rightarrow> blocks \<Rightarrow> pyfloat \<Rightarrow> int \<Rightarrow> bool" where
  "spec_changed d blocks curve_width sample_rate =
     (d = [] \<or> saved_render d \<noteq> Some (curve_width, sample_rate)
      \<or> (\<exists>(t, info) \<in> set blocks. block_differs info (map_of d t)))"

text \<open>
  The blocks and the saved document that the comparison is specified for: titles are
  distinct and none is the reserved key, a block's \<open>rgb\<close> is \<^verbatim>\<open>None\<close> or a triple
  of floats, the saved value under a block's title (if any) is readable, and the
  render record (if any) has the documented shape.
\<close>

definition comparable :: "(string \<times> pyval) list \<Rightarrow> blocks \<Rightarrow> bool" where
  "comparable d blocks =
     (distinct (map fst blocks) \<and> ''RenderRigControls'' \<notin> set (map fst blocks)
      \<and> saved_render d \<noteq> None
      \<and> (\<forall>(t, info) \<in> set blocks.
            (rgb info = PNone \<or> is_float_triple (rgb info))
            \<and> (case map_of d t of None \<Rightarrow> True | Some v \<Rightarrow> readable_block v)))"

subsection \<open>The normal form of a saved block\<close>

text \<open>
  The record that the comparison makes of a saved block value before it compares:
  no record, a palette index (and nothing else), or the custom index with a triple of
  floats (or with no rgb at all, when the saved value has none).
\<close>

datatype normal_block =
    NoBlock
  | Indexed nat
  | Custom "(pyfloat \<times> pyfloat \<times> pyfloat) option"

text \<open>The dictionary (or \<^verbatim>\<open>None\<close>) that stands for a normal form in the code.\<close>

fun encode_normal :: "normal_block \<Rightarrow> pyval" where
  "encode_normal NoBlock = PNone"
| "encode_normal (Indexed n) = PDict [(''index'', PInt (int n))]"
| "encode_normal (Custom None) = PDict [(''index'', PInt (-1))]"
| "encode_normal (Custom (Some (r, g, b))) =
     PDict [(''index'', PInt (-1)), (''rgb'', PList [PFloat r, PFloat g, PFloat b])]"

text \<open>The field of a saved record, \<^verbatim>\<open>None\<close> when the key is absent.\<close>

definition saved_field :: "(string \<times> pyval) list \<Rightarrow> string \<Rightarrow> pyval" where
  "saved_field e k = (case map_of e k of None \<Rightarrow> PNone | Some x \<Rightarrow> x)"

text \<open>The float that a number converts to: a boolean, an integer up to \<open>2^53\<close>, a float.\<close>

definition as_float :: "pyval \<Rightarrow> pyfloat option" where
  "as_float x =
     (case x of
        PBool b \<Rightarrow> Some (if b then 1 else 0)
      | PInt i \<Rightarrow> if - (2 ^ 53) \<le> i \<and> i \<le> 2 ^ 53 then Some (of_int i) else None
      | PFloat q \<Rightarrow> Some q
      | _ \<Rightarrow> None)"

text \<open>The first three entries of a list, as floats.\<close>

definition first_three :: "pyval \<Rightarrow> (pyfloat \<times> pyfloat \<times> pyfloat) option" where
  "first_three v =
     (case v of
        PList (a # b # c # rest) \<Rightarrow>
          (case (as_float a, as_float b, as_float c) of
             (Some x, Some y, Some z) \<Rightarrow> Some (x, y, z)
           | _ \<Rightarrow> None)
      | _ \<Rightarrow> None)"

text \<open>
  The normal form of a saved value: an index that is a number \<open>\<ge> 0\<close> becomes that
  palette index as an integer, and every other key is dropped; a negative index becomes
  the custom index -1 with the first three entries of the saved rgb as floats; a value
  without index is no record.
\<close>

definition normal_form :: "pyval \<Rightarrow> normal_block" where
  "normal_form v =
     (case v of
        PDict e \<Rightarrow>
          (case num_of (saved_field e ''index'') of
             None \<Rightarrow> NoBlock
           | Some q \<Rightarrow>
               if 0 \<le> q then Indexed (nat (trunc q))
               else Custom (first_three (saved_field e ''rgb'')))
      | _ \<Rightarrow> NoBlock)"

text \<open>
  The saved values that have a normal form: an empty or null value, a dictionary without
  index, a dictionary whose index is a number \<open>\<ge> 0\<close> whatever else it holds, and a
  dictionary whose index is a negative number and whose rgb is absent, null or a list that
  starts with three numbers.
\<close>

definition normalizable_block :: "pyval \<Rightarrow> bool" where
  "normalizable_block v =
     (\<not> truthy v
      \<or> (case v of
            PDict e \<Rightarrow>
              saved_field e ''index'' = PNone
              \<or> (case num_of (saved_field e ''index'') of
                    None \<Rightarrow> False
                  | Some q \<Rightarrow>
                      0 \<le> q \<or> saved_field e ''rgb'' = PNone
                      \<or> first_three (saved_field e ''rgb'') \<noteq> None)
          | _ \<Rightarrow> False))"

text \<open>
  The spec's element-wise comparison of a normal triple with a block's rgb: the block
  holds a list of three numbers, equal to the three floats.
\<close>

definition rgb_matches :: "(pyfloat \<times> pyfloat \<times> pyfloat) \<Rightarrow> pyval \<Rightarrow> bool" where
  "rgb_matches t cur =
     (case t of
        (r, g, b) \<Rightarrow>
          (case cur of
             PList [x, y, z] \<Rightarrow> num_of x = Some r \<and> num_of y = Some g \<and> num_of z = Some b
           | _ \<Rightarrow> False))"

text \<open>
  Steps 3 and 4 of the spec's algorithm for one block, on the normal form of the saved
  value under the block's title: the title is absent or gives no record, the indices
  differ, or both are custom and the rgb values differ.
\<close>

definition block_changed :: "block \<Rightarrow> pyval option \<Rightarrow> bool" where
  "block_changed info saved =
     (case saved of
        None \<Rightarrow> True
      | Some v \<Rightarrow>
          (case normal_form v of
             NoBlock \<Rightarrow> True
           | Indexed n \<Rightarrow> cur_index info \<noteq> int n
           | Custom c \<Rightarrow>
               cur_index info \<noteq> -1
               \<or> (case c of
                     None \<Rightarrow> rgb info \<noteq> PNone
                   | Some t \<Rightarrow> \<not> rgb_matches t (rgb info))))"

text \<open>The spec's algorithm, steps 1 to 5, with the saved records in normal form.\<close>

definition changed_after_normalizing ::
  "(string \<times> pyval) list \<Rightarrow> blocks \<Rightarrow> pyfloat \<Rightarrow> int \<Rightarrow> bool" where
  "changed_after_normalizing d blocks curve_width sample_rate =
     (d = [] \<or> saved_render d \<noteq> Some (curve_width, sample_rate)
      \<or> (\<exists>(t, info) \<in> set blocks. block_changed info (map_of d t)))"

text \<open>
  The blocks and the saved documents that have normal forms: titles are distinct and
  none is the reserved key, the saved value under a block's title (if any) has a normal
  form, and the render record (if any) has the documented shape. A block's \<open>rgb\<close>
  may be any value.
\<close>

definition normalizable :: "(string \<times> pyval) list \<Rightarrow> blocks \<Rightarrow> bool" where
  "normalizable d blocks =
     (distinct (map fst blocks) \<and> ''RenderRigControls'' \<notin> set (map fst blocks)
      \<and> saved_render d \<noteq> None
      \<and> (\<forall>(t, info) \<in> set blocks.
            case map_of d t of None \<Rightarrow> True | Some v \<Rightarrow> normalizable_block v))"

text \<open>The invariant of a block as the spec states it: \<open>rgb\<close> is set exactly when the index is -1.\<close>

definition spec_invariant :: "block \<Rightarrow> bool" where
  "spec_invariant b = ((rgb b \<noteq> PNone) = (slider b = -1))"

text \<open>
  The invariant the operations keep: slider and \<open>lastIndex\<close> stay in their ranges,
  a custom selection has its rgb, and while the slider shows a palette index,
  \<open>lastIndex\<close> is that index.
\<close>

definition block_inv :: "block \<Rightarrow> bool" where
  "block_inv b =
     (-1 \<le> slider b \<and> slider b \<le> 31 \<and> 0 \<le> lastIndex b \<and> lastIndex b \<le> 31
      \<and> (slider b = -1 \<longrightarrow> truthy (rgb b))
      \<and> (0 \<le> slider b \<longrightarrow> lastIndex b = slider b))"

definition blocks_inv :: "blocks \<Rightarrow> bool" where
  "blocks_inv bs = (\<forall>(t, b) \<in> set bs. block_inv b)"

text \<open>
  The block values \<^verbatim>\<open>save_config\<close> writes: \<^verbatim>\<open>{"index": i, "name": n}\<close> with \<open>n\<close>
  the palette name of \<open>i\<close>, or \<^verbatim>\<open>{"index": -1, "rgb": [float, float, float]}\<close>.
\<close>

definition written_block :: "pyval \<Rightarrow> bool" where
  "written_block v =
     (case v of
        PDict [(k1, PInt i), (k2, x)] \<Rightarrow>
          k1 = ''index''
          \<and> (if 0 \<le> i then k2 = ''name'' \<and> x = PStr (color_name i)
              else i = -1 \<and> k2 = ''rgb'' \<and> is_float_triple x)
      | _ \<Rightarrow> False)"

definition written_render :: "pyval \<Rightarrow> bool" where
  "written_render v =
     (case v of
        PDict [(k1, PFloat w), (k2, PInt n)] \<Rightarrow> k1 = ''curveWidth'' \<and> k2 = ''sampleRate''
      | _ \<Rightarrow> False)"

section \<open>Properties of the config store\<close>

lemma read_json_config_cases:
  "read_json_config f = Inr (case f of JsonText v \<Rightarrow> v | _ \<Rightarrow> PDict [])"
  by (cases f) (simp_all add: read_json_config_def path_exists_def)

text \<open>
  C7. \<^verbatim>\<open>read_json_config\<close> returns the empty document when the file is absent, when
  it cannot be opened and when its content is not JSON, and it returns a value (it never
  raises) in every state of the file.
\<close>

theorem read_json_config_never_raises:
  "read_json_config Absent = Inr (PDict [])
   \<and> read_json_config Unreadable = Inr (PDict [])
   \<and> read_json_config NotJson = Inr (PDict [])
   \<and> (\<forall>f. \<exists>v. read_json_config f = Inr v)"
  by (simp add: read_json_config_cases)

text \<open>
  C8. A save that completes, followed by a load, gives back the document that was
  saved, whatever the file held before. This holds for every JSON document, the
  documented shapes among them, and so for the document that \<^verbatim>\<open>save_config\<close>
  builds from the panel.
\<close>

theorem save_then_load_roundtrip:
  "read_json_config (fst (write_json_config WriteOk f doc)) = Inr doc
   \<and> read_json_config (fst (save_config WriteOk f blocks cw sr))
       = Inr (PDict (save_config_data blocks cw sr))"
  by (simp add: save_config_def write_json_config_def read_json_config_cases)

text \<open>
  C4 as the spec states it: after a failed save the file is as it was before. It is
  not: a save that fails after \<^verbatim>\<open>open(CONFIG_PATH, "w")\<close> has emptied the file
  leaves a truncated file, and the document saved before is lost.
\<close>

theorem failed_write_not_atomic:
  "fst (write_json_config WriteFails
          (JsonText (PDict [(''A'', PDict [(''index'', PInt 5)])]))
          (PDict [(''A'', PDict [(''index'', PInt 6)])]))
   \<noteq> JsonText (PDict [(''A'', PDict [(''index'', PInt 5)])])"
  by (simp add: write_json_config_def)

text \<open>
  C4, amended. A failing save never raises and shows the user a warning. When opening
  the file fails, the file is as it was. When the failure comes after the file has been
  opened for writing, the file is left truncated: its previous content is gone, and the
  next load reads the empty document.
\<close>

theorem write_json_config_failure:
  "(\<exists>e. snd (write_json_config OpenFails f data) = WarningMessage e)
   \<and> fst (write_json_config OpenFails f data) = f
   \<and> (\<exists>e. snd (write_json_config WriteFails f data) = WarningMessage e)
   \<and> fst (write_json_config WriteFails f data) = NotJson
   \<and> read_json_config (fst (write_json_config WriteFails f data)) = Inr (PDict [])"
  by (simp add: write_json_config_def read_json_config_cases)

section \<open>Properties of the diff engine\<close>

text \<open>
  C2. When the config file is missing, unreadable, not JSON, or holds the empty
  document, \<^verbatim>\<open>has_unsaved_changes\<close> returns true for every state of the blocks and of
  the render fields.
\<close>

theorem has_unsaved_changes_empty_document:
  "has_unsaved_changes Absent blocks cw sr = Inr True
   \<and> has_unsaved_changes Unreadable blocks cw sr = Inr True
   \<and> has_unsaved_changes NotJson blocks cw sr = Inr True
   \<and> has_unsaved_changes (JsonText (PDict [])) blocks cw sr = Inr True"
  by (simp add: has_unsaved_changes_def read_json_config_cases bindE_def)

section \<open>Properties of the block state\<close>

lemma map_of_dict_set: "map_of (dict_set d k v) k' = (if k' = k then Some v else map_of d k')"
  by (induction d) auto

lemma set_dict_set: "set (dict_set d k v) \<subseteq> insert (k, v) (set d)"
  by (induction d) (auto split: if_splits)

lemma dict_set_fresh: "k \<notin> fst ` set d \<Longrightarrow> dict_set d k v = d @ [(k, v)]"
  by (induction d) auto

lemma dict_set_twice: "dict_set (dict_set d k v) k w = dict_set d k w"
  by (induction d) auto

lemma blocks_inv_dict_set: "blocks_inv bs \<Longrightarrow> block_inv b \<Longrightarrow> blocks_inv (dict_set bs t b)"
  using set_dict_set [of bs t b] by (auto simp: blocks_inv_def)

lemma blocks_inv_lookup: "blocks_inv bs \<Longrightarrow> map_of bs t = Some b \<Longrightarrow> block_inv b"
  by (auto simp: blocks_inv_def dest: map_of_SomeD)

lemma is_float_triple_truthy: "is_float_triple r \<Longrightarrow> truthy r"
  by (induction r rule: is_float_triple.induct) auto

lemma readable_block_fields:
  assumes "readable_block v"
  obtains e i where "v = PDict e" "map_of e ''index'' = Some (PInt i)" "0 \<le> i" "i \<le> 31"
  | e r where "v = PDict e" "map_of e ''index'' = Some (PInt (-1))" "map_of e ''rgb'' = Some r"
      "is_float_triple r"
proof -
  from assms obtain e where e: "v = PDict e"
    by (cases v) (simp_all add: readable_block_def)
  with assms obtain x where x: "map_of e ''index'' = Some x"
    by (cases "map_of e ''index''") (simp_all add: readable_block_def)
  with assms e obtain i where i: "x = PInt i"
    by (cases x) (simp_all add: readable_block_def)
  show thesis
  proof (cases "0 \<le> i")
    case True
    with assms e x i have "i \<le> 31" by (simp add: readable_block_def)
    with that(1) e x i True show thesis by simp
  next
    case False
    with assms e x i have m: "i = -1" by (simp add: readable_block_def)
    with assms e x i obtain r where "map_of e ''rgb'' = Some r" "is_float_triple r"
      by (cases "map_of e ''rgb''") (simp_all add: readable_block_def)
    with that(2) e x i m show thesis by simp
  qed
qed

lemma documented_block_readable: "documented_block v \<Longrightarrow> readable_block v"
  by (cases v) (auto simp: documented_block_def readable_block_def
      split: option.splits pyval.splits if_splits)

lemma add_block_built:
  assumes inv: "blocks_inv bs" and di: "0 \<le> default_index" "default_index \<le> 31"
    and sd: "\<not> truthy saved_data \<or> readable_block saved_data"
  shows "\<exists>bs' b'. add_color_index_block title default_index saved_data bs = Inr bs'
          \<and> blocks_inv bs' \<and> map_of bs' title = Some b'
          \<and> (\<not> truthy saved_data \<longrightarrow>
                slider b' = default_index \<and> lastIndex b' = default_index \<and> rgb b' = PNone)
          \<and> (\<forall>e i. saved_data = PDict e \<and> map_of e ''index'' = Some (PInt i) \<and> 0 \<le> i \<longrightarrow>
                slider b' = i \<and> lastIndex b' = i \<and> rgb b' = PNone)
          \<and> (\<forall>e r. saved_data = PDict e \<and> map_of e ''index'' = Some (PInt (-1))
                  \<and> map_of e ''rgb'' = Some r \<longrightarrow>
                slider b' = -1 \<and> lastIndex b' = default_index \<and> rgb b' = r)"
proof (cases "truthy saved_data")
  case False
  with inv di show ?thesis
    by (auto simp: add_color_index_block_def bindE_def block_inv_def map_of_dict_set
        intro!: blocks_inv_dict_set)
next
  case True
  with sd have "readable_block saved_data" by simp
  then show ?thesis
  proof (cases rule: readable_block_fields)
    case (1 e i)
    with inv di True show ?thesis
      by (auto simp: add_color_index_block_def bindE_def block_inv_def map_of_dict_set
          intro!: blocks_inv_dict_set)
  next
    case (2 e r)
    with inv di True show ?thesis
      by (auto simp: add_color_index_block_def bindE_def block_inv_def is_float_triple_truthy
          map_of_dict_set intro!: blocks_inv_dict_set)
  qed
qed

lemma drag_inv:
  assumes inv: "blocks_inv bs" and t: "map_of bs t = Some b" and v: "-1 \<le> v" "v \<le> 31"
  shows "\<exists>bs' b'. slider_dragged bs t v = Inr bs' \<and> blocks_inv bs' \<and> map_of bs' t = Some b'
          \<and> (0 \<le> v \<longrightarrow> slider b' = v \<and> lastIndex b' = v)
          \<and> (v = -1 \<and> \<not> truthy (rgb b) \<longrightarrow> slider b' = lastIndex b \<and> lastIndex b' = lastIndex b)
          \<and> (v = -1 \<and> truthy (rgb b) \<longrightarrow> slider b' = -1 \<and> lastIndex b' = lastIndex b)
          \<and> rgb b' = rgb b"
proof -
  have b: "block_inv b" using inv t by (rule blocks_inv_lookup)
  show ?thesis
    using b v t inv
    by (auto simp: slider_dragged_def update_color_block_def map_of_dict_set dict_set_twice
        block_inv_def Let_def intro!: blocks_inv_dict_set)
qed

lemma custom_inv:
  assumes inv: "blocks_inv bs" and t: "map_of bs t = Some b"
  shows "\<exists>bs' b'. create_custom_color (Some (r, g, bl)) t bs = Inr bs' \<and> blocks_inv bs'
          \<and> map_of bs' t = Some b' \<and> slider b' = -1
          \<and> rgb b' = PList [PFloat r, PFloat g, PFloat bl] \<and> lastIndex b' = lastIndex b"
proof -
  have b: "block_inv b" using inv t by (rule blocks_inv_lookup)
  show ?thesis
    using b t inv
    by (auto simp: create_custom_color_def map_of_dict_set block_inv_def Let_def
        intro!: blocks_inv_dict_set)
qed


text \<open>
  C5, amended. Let every block satisfy \<open>block_inv\<close>: a custom selection (index -1)
  has its rgb, \<open>lastIndex\<close> is a palette index, and while the slider shows a palette
  index \<open>lastIndex\<close> is that index. Then every operation succeeds and keeps it:
  building a block from no saved record or from a readable one, dragging the slider
  anywhere in its range, creating or cancelling a custom colour, and applying. A block
  built from no saved record is on the default index, with \<open>lastIndex\<close> the default
  index and no rgb; built from a record with a palette index it is on that index, with
  \<open>lastIndex\<close> that index and no rgb; built from a custom record it is on -1 with the
  saved rgb, and \<open>lastIndex\<close> is the default index. A drag to
  a palette index records it in \<open>lastIndex\<close>; a drag to -1 without a stored rgb puts
  the slider back on \<open>lastIndex\<close>; a drag never changes \<open>rgb\<close>, so a custom rgb
  stays stored while the index is a palette index; a custom colour leaves
  \<open>lastIndex\<close> as it was.
\<close>

theorem block_operations_keep_invariant:
  assumes inv: "blocks_inv bs" and t: "map_of bs t = Some b"
    and v: "-1 \<le> v" "v \<le> 31"
    and di: "0 \<le> default_index" "default_index \<le> 31"
    and sd: "\<not> truthy saved_data \<or> readable_block saved_data"
  shows
    "(\<exists>bs' b'. add_color_index_block title default_index saved_data bs = Inr bs'
          \<and> blocks_inv bs' \<and> map_of bs' title = Some b'
          \<and> (\<not> truthy saved_data \<longrightarrow>
                slider b' = default_index \<and> lastIndex b' = default_index \<and> rgb b' = PNone)
          \<and> (\<forall>e i. saved_data = PDict e \<and> map_of e ''index'' = Some (PInt i) \<and> 0 \<le> i \<longrightarrow>
                slider b' = i \<and> lastIndex b' = i \<and> rgb b' = PNone)
          \<and> (\<forall>e r. saved_data = PDict e \<and> map_of e ''index'' = Some (PInt (-1))
                  \<and> map_of e ''rgb'' = Some r \<longrightarrow>
                slider b' = -1 \<and> lastIndex b' = default_index \<and> rgb b' = r))
     \<and> (\<exists>bs' b'. slider_dragged bs t v = Inr bs' \<and> blocks_inv bs' \<and> map_of bs' t = Some b'
          \<and> (0 \<le> v \<longrightarrow> slider b' = v \<and> lastIndex b' = v)
          \<and> (v = -1 \<and> \<not> truthy (rgb b) \<longrightarrow> slider b' = lastIndex b \<and> lastIndex b' = lastIndex b)
          \<and> (v = -1 \<and> truthy (rgb b) \<longrightarrow> slider b' = -1 \<and> lastIndex b' = lastIndex b)
          \<and> rgb b' = rgb b)
     \<and> (\<exists>bs' b'. create_custom_color (Some (r, g, bl)) t bs = Inr bs' \<and> blocks_inv bs'
          \<and> map_of bs' t = Some b' \<and> slider b' = -1
          \<and> rgb b' = PList [PFloat r, PFloat g, PFloat bl] \<and> lastIndex b' = lastIndex b)
     \<and> create_custom_color None t bs = Inr bs
     \<and> (\<exists>ov. apply_color_button bs t = Inr (bs, ov))"
proof -
  have "\<exists>ov. apply_color_button bs t = Inr (bs, ov)"
    using t by (simp add: apply_color_button_def Let_def)
  moreover have "create_custom_color None t bs = Inr bs"
    by (simp add: create_custom_color_def)
  ultimately show ?thesis
    using add_block_built [OF inv di sd, of title] drag_inv [OF inv t v]
      custom_inv [OF inv t, of r g bl]
    by (intro conjI) assumption+
qed

text \<open>
  C5 as the spec states it: \<open>rgb\<close> is set if and only if the index is -1. After a
  custom colour has been created, dragging the slider to index 5 leaves the custom rgb
  in the block.
\<close>

theorem custom_rgb_kept_after_drag:
  "add_color_index_block ''A'' 17 (PDict [(''index'', PInt 5)]) []
     = Inr [(''A'', \<lparr>slider = 5, rgb = PNone, lastIndex = 5,
                     label = ''Selected: Dark Blue'', swatch = IndexColor 5\<rparr>)]
   \<and> create_custom_color (Some (1, 0, 0)) ''A''
        [(''A'', \<lparr>slider = 5, rgb = PNone, lastIndex = 5,
                  label = ''Selected: Dark Blue'', swatch = IndexColor 5\<rparr>)]
     = Inr [(''A'', \<lparr>slider = -1, rgb = PList [PFloat 1, PFloat 0, PFloat 0], lastIndex = 5,
                     label = ''Selected: Custom RGB'',
                     swatch = Rgb (PList [PFloat 1, PFloat 0, PFloat 0])\<rparr>)]
   \<and> slider_dragged
        [(''A'', \<lparr>slider = -1, rgb = PList [PFloat 1, PFloat 0, PFloat 0], lastIndex = 5,
                  label = ''Selected: Custom RGB'',
                  swatch = Rgb (PList [PFloat 1, PFloat 0, PFloat 0])\<rparr>)] ''A'' 5
     = Inr [(''A'', \<lparr>slider = 5, rgb = PList [PFloat 1, PFloat 0, PFloat 0], lastIndex = 5,
                     label = ''Selected: Dark Blue'', swatch = IndexColor 5\<rparr>)]
   \<and> \<not> spec_invariant \<lparr>slider = 5, rgb = PList [PFloat 1, PFloat 0, PFloat 0], lastIndex = 5,
                         label = ''Selected: Dark Blue'', swatch = IndexColor 5\<rparr>"
  by (simp add: add_color_index_block_def create_custom_color_def slider_dragged_def
      update_color_block_def bindE_def spec_invariant_def color_name_def INDEXED_COLORS_def
      Let_def)

text \<open>
  The hypotheses of the invariant theorem hold for a block on index 5 and a saved custom
  record: the block built from the record with default index 17 is on -1 with the saved
  rgb and \<open>lastIndex\<close> 17; the block on index 5, dragged to -1 with no custom rgb,
  returns to 5.
\<close>

theorem block_operations_keep_invariant_witness:
  "blocks_inv [(''A'', \<lparr>slider = 5, rgb = PNone, lastIndex = 5,
                        label = ''Selected: Dark Blue'', swatch = IndexColor 5\<rparr>)]
   \<and> readable_block (PDict [(''index'', PInt (-1)),
                             (''rgb'', PList [PFloat 1, PFloat 0, PFloat 0])])
   \<and> (\<exists>bs' b'. add_color_index_block ''B'' 17
               (PDict [(''index'', PInt (-1)), (''rgb'', PList [PFloat 1, PFloat 0, PFloat 0])])
               [(''A'', \<lparr>slider = 5, rgb = PNone, lastIndex = 5,
                         label = ''Selected: Dark Blue'', swatch = IndexColor 5\<rparr>)] = Inr bs'
             \<and> blocks_inv bs' \<and> map_of bs' ''B'' = Some b'
             \<and> slider b' = -1 \<and> lastIndex b' = 17
             \<and> rgb b' = PList [PFloat 1, PFloat 0, PFloat 0])
   \<and> (\<exists>bs' b'. slider_dragged
               [(''A'', \<lparr>slider = 5, rgb = PNone, lastIndex = 5,
                         label = ''Selected: Dark Blue'', swatch = IndexColor 5\<rparr>)] ''A'' (-1)
               = Inr bs' \<and> blocks_inv bs' \<and> map_of bs' ''A'' = Some b'
             \<and> slider b' = 5 \<and> lastIndex b' = 5)"
proof -
  let ?b = "\<lparr>slider = 5, rgb = PNone, lastIndex = 5,
              label = ''Selected: Dark Blue'', swatch = IndexColor 5\<rparr>"
  let ?sd = "PDict [(''index'', PInt (-1)), (''rgb'', PList [PFloat 1, PFloat 0, PFloat 0])]"
  have inv: "blocks_inv [(''A'', ?b)]"
    by (simp add: blocks_inv_def block_inv_def)
  have rd: "readable_block ?sd"
    by (simp add: readable_block_def)
  have t: "map_of [(''A'', ?b)] ''A'' = Some ?b" by simp
  have v: "(-1::int) \<le> -1" "(-1::int) \<le> 31" and di: "(0::int) \<le> 17" "(17::int) \<le> 31"
    by simp_all
  have sd: "\<not> truthy ?sd \<or> readable_block ?sd" using rd by simp
  note inst = block_operations_keep_invariant [OF inv t v di sd, of "''B''" 1 0 0]
  from inst [THEN conjunct1] obtain bs' b' where
    a: "add_color_index_block ''B'' 17 ?sd [(''A'', ?b)] = Inr bs'" "blocks_inv bs'"
      "map_of bs' ''B'' = Some b'"
    and "\<forall>e r. ?sd = PDict e \<and> map_of e ''index'' = Some (PInt (-1))
                  \<and> map_of e ''rgb'' = Some r \<longrightarrow>
                slider b' = -1 \<and> lastIndex b' = 17 \<and> rgb b' = r"
    by blast
  then have a': "slider b' = -1 \<and> lastIndex b' = 17 \<and> rgb b' = PList [PFloat 1, PFloat 0, PFloat 0]"
    by simp
  from inst [THEN conjunct2, THEN conjunct1] obtain cs' c' where
    d: "slider_dragged [(''A'', ?b)] ''A'' (-1) = Inr cs'" "blocks_inv cs'"
      "map_of cs' ''A'' = Some c'"
    and "(-1::int) = -1 \<and> \<not> truthy (rgb ?b) \<longrightarrow> slider c' = lastIndex ?b \<and> lastIndex c' = lastIndex ?b"
    by blast
  then have d': "slider c' = 5 \<and> lastIndex c' = 5" by simp
  from inv rd a a' d d' show ?thesis by blast
qed

section \<open>Properties of the saved document\<close>

lemma dict_set_distinct:
  "distinct (map fst d) \<Longrightarrow> distinct (map fst (dict_set d k v))"
proof (induction d)
  case Nil
  then show ?case by simp
next
  case (Cons p d)
  then show ?case
    using set_dict_set [of d k v] by (cases p) (auto 4 3 simp: image_iff)
qed

lemma dict_set_entries:
  "distinct (map fst d) \<Longrightarrow> (t, x) \<in> set (dict_set d k v) \<Longrightarrow>
     (t = k \<and> x = v) \<or> (t \<noteq> k \<and> (t, x) \<in> set d)"
  by (induction d) (force split: if_splits simp: image_iff)+

lemma save_loop_distinct:
  "distinct (map fst acc) \<Longrightarrow> distinct (map fst (save_loop acc bs))"
  by (induction acc bs rule: save_loop.induct) (simp_all add: dict_set_distinct)

lemma save_loop_entries:
  "(t, x) \<in> set (save_loop acc bs) \<Longrightarrow>
     (t, x) \<in> set acc \<or> (\<exists>info. (t, info) \<in> set bs \<and> x = saved_entry info)"
proof (induction acc bs rule: save_loop.induct)
  case (1 data)
  then show ?case by simp
next
  case (2 data title info rest)
  then show ?case
    using set_dict_set [of data title "saved_entry info"] by auto
qed

lemma saved_entry_written:
  "(slider info < 0 \<longrightarrow> is_float_triple (rgb info)) \<Longrightarrow> written_block (saved_entry info)"
  by (auto simp: saved_entry_def written_block_def Let_def)

text \<open>
  C6, amended. A completed \<^verbatim>\<open>save_config\<close> leaves the dictionary \<open>data\<close> in the
  file. When every block on the custom index holds a triple of floats, each block value
  in it is \<^verbatim>\<open>{"index": i, "name": n}\<close> with \<open>0 \<le> i\<close> and \<open>n\<close> the palette name
  of \<open>i\<close>, or \<^verbatim>\<open>{"index": -1, "rgb": [float, float, float]}\<close>, and the value under
  \<^verbatim>\<open>RenderRigControls\<close> is \<^verbatim>\<open>{"curveWidth": float, "sampleRate": int}\<close>.
\<close>

theorem save_config_shapes:
  assumes "\<forall>(t, info) \<in> set blocks. slider info < 0 \<longrightarrow> is_float_triple (rgb info)"
  shows "fst (save_config WriteOk f blocks cw sr) = JsonText (PDict (save_config_data blocks cw sr))
     \<and> (\<forall>(t, x) \<in> set (save_config_data blocks cw sr).
           if t = ''RenderRigControls'' then written_render x else written_block x)"
proof -
  have "written_render x" if "(''RenderRigControls'', x) \<in> set (save_config_data blocks cw sr)" for x
  proof -
    have "x = PDict [(''curveWidth'', PFloat cw), (''sampleRate'', PInt sr)]"
      using dict_set_entries [of "save_loop [] blocks" "''RenderRigControls''" x
          "''RenderRigControls''" "PDict [(''curveWidth'', PFloat cw), (''sampleRate'', PInt sr)]"]
        that save_loop_distinct [of "[]" blocks]
      by (simp add: save_config_data_def)
    then show ?thesis by (simp add: written_render_def)
  qed
  moreover have "written_block x"
    if "(t, x) \<in> set (save_config_data blocks cw sr)" "t \<noteq> ''RenderRigControls''" for t x
  proof -
    from that have "(t, x) \<in> set (save_loop [] blocks)"
      using dict_set_entries [of "save_loop [] blocks" t x "''RenderRigControls''"]
        save_loop_distinct [of "[]" blocks]
      by (auto simp: save_config_data_def)
    then obtain info where "(t, info) \<in> set blocks" "x = saved_entry info"
      using save_loop_entries by fastforce
    with assms show ?thesis by (auto intro: saved_entry_written)
  qed
  ultimately show ?thesis
    by (auto simp: save_config_def write_json_config_def)
qed

text \<open>
  C6 as the spec states it: a block on a palette index is written as exactly
  \<^verbatim>\<open>{"index": int}\<close>. The value written for a block on index 5 has a second key,
  \<^verbatim>\<open>name\<close>.
\<close>

theorem save_config_writes_name:
  "save_config_data [(''A'', \<lparr>slider = 5, rgb = PNone, lastIndex = 5,
                              label = ''Selected: Dark Blue'', swatch = IndexColor 5\<rparr>)] 1 1
     = [(''A'', PDict [(''index'', PInt 5), (''name'', PStr ''Dark Blue'')]),
        (''RenderRigControls'', PDict [(''curveWidth'', PFloat 1), (''sampleRate'', PInt 1)])]
   \<and> \<not> documented_block (PDict [(''index'', PInt 5), (''name'', PStr ''Dark Blue'')])"
  by (simp add: save_config_data_def saved_entry_def color_name_def INDEXED_COLORS_def
      documented_block_def)

text \<open>
  Two blocks, one on index 5 and one with a custom colour, satisfy the hypothesis; the
  values written for them and for the render settings have the shapes of the theorem.
\<close>

theorem save_config_shapes_witness:
  "is_float_triple (PList [PFloat 1, PFloat 0, PFloat 0])
   \<and> written_block (PDict [(''index'', PInt 5), (''name'', PStr ''Dark Blue'')])
   \<and> written_block (PDict [(''index'', PInt (-1)), (''rgb'', PList [PFloat 1, PFloat 0, PFloat 0])])
   \<and> written_render (PDict [(''curveWidth'', PFloat 1), (''sampleRate'', PInt 2)])"
proof -
  let ?bs = "[(''A'', \<lparr>slider = 5, rgb = PNone, lastIndex = 5,
                       label = ''Selected: Dark Blue'', swatch = IndexColor 5\<rparr>),
              (''B'', \<lparr>slider = -1, rgb = PList [PFloat 1, PFloat 0, PFloat 0], lastIndex = 17,
                       label = ''Selected: Custom RGB'',
                       swatch = Rgb (PList [PFloat 1, PFloat 0, PFloat 0])\<rparr>)]"
  have h: "\<forall>(t, info) \<in> set ?bs. slider info < 0 \<longrightarrow> is_float_triple (rgb info)"
    by simp
  from save_config_shapes [OF h, of Absent 1 2]
  show ?thesis
    by (simp add: save_config_data_def saved_entry_def color_name_def INDEXED_COLORS_def)
qed

section \<open>The comparison loop\<close>

declare py_eq.simps(1) [simp del]

lemma bindE_Inr: "bindE (Inr x) f = f x"
  by (simp add: bindE_def)

lemma py_eq_PInt [simp]: "py_eq (PInt a) (PInt b) = (a = b)"
  by (simp add: py_eq.simps(1))

lemma is_float_tripleE:
  assumes "is_float_triple r"
  obtains a b c where "r = PList [PFloat a, PFloat b, PFloat c]"
  using assms by (induction r rule: is_float_triple.induct) auto

lemma py_eq_triple:
  "is_float_triple x \<Longrightarrow> is_float_triple y \<Longrightarrow> py_eq x y = (x = y)"
  by (erule is_float_tripleE, erule is_float_tripleE) (auto simp: py_eq.simps(1))

lemma py_eq_triple_None:
  "is_float_triple x \<Longrightarrow> py_eq x PNone = False"
  by (erule is_float_tripleE) (auto simp: py_eq.simps(1))

lemma compare_loop_append:
  "compare_loop s (xs @ ys) =
     (case compare_loop s xs of Inr False \<Rightarrow> compare_loop s ys | r \<Rightarrow> r)"
proof (induction xs)
  case Nil
  show ?case by simp
next
  case (Cons p xs)
  obtain k v where p: "p = (k, v)" by (cases p)
  show ?case
    unfolding p append_Cons compare_loop.simps Cons.IH
    by (simp add: bindE_def split: sum.splits bool.splits)
qed


lemma normalize_indexed:
  "map_of e ''index'' = Some (PInt i) \<Longrightarrow> 0 \<le> i \<Longrightarrow>
     normalize_saved_block (PDict e) = Inr (PDict [(''index'', PInt i)])"
  by (auto simp: normalize_saved_block_def bindE_def)

lemma normalize_custom:
  "map_of e ''index'' = Some (PInt i) \<Longrightarrow> i < 0 \<Longrightarrow> map_of e ''rgb'' = Some r \<Longrightarrow>
     is_float_triple r \<Longrightarrow>
     normalize_saved_block (PDict e) = Inr (PDict [(''index'', PInt (-1)), (''rgb'', r)])"
  by (erule is_float_tripleE) (auto simp: normalize_saved_block_def bindE_def)

lemma normalize_custom_no_rgb:
  "map_of e ''index'' = Some (PInt i) \<Longrightarrow> i < 0 \<Longrightarrow>
     map_of e ''rgb'' = None \<or> map_of e ''rgb'' = Some PNone \<Longrightarrow>
     normalize_saved_block (PDict e) = Inr (PDict [(''index'', PInt (-1))])"
  by (auto simp: normalize_saved_block_def bindE_def)

lemma compare_step_absent:
  "k \<noteq> ''RenderRigControls'' \<Longrightarrow> map_of d k = None \<Longrightarrow>
     compare_loop (PDict d) ((k, v) # rest) = Inr True"
  by (simp add: bindE_def normalize_saved_block_def)

lemma compare_step:
  assumes k: "k \<noteq> ''RenderRigControls''"
    and cur: "rgb info = PNone \<or> is_float_triple (rgb info)"
    and sv: "case map_of d k of None \<Rightarrow> True | Some v \<Rightarrow> readable_block v"
  shows "compare_loop (PDict d) ((k, current_entry info) # rest) =
           (if block_differs info (map_of d k) then Inr True else compare_loop (PDict d) rest)"
proof (cases "map_of d k")
  case None
  with k show ?thesis by (simp add: bindE_def normalize_saved_block_def block_differs_def)
next
  case (Some v)
  with sv have "readable_block v" by simp
  then show ?thesis
  proof (cases rule: readable_block_fields)
    case (1 e i)
    with k Some show ?thesis
      by (simp add: bindE_def normalize_indexed current_entry_def block_differs_def
          cur_index_def Let_def)
  next
    case (2 e r)
    have n: "normalize_saved_block (PDict e) = Inr (PDict [(''index'', PInt (-1)), (''rgb'', r)])"
      using 2 by (simp add: normalize_custom)
    have r: "r \<noteq> PNone" using 2(4) by auto
    show ?thesis
    proof (cases "0 \<le> slider info")
      case True
      with k Some 2 n show ?thesis
        by (simp add: bindE_def current_entry_def block_differs_def cur_index_def Let_def)
    next
      case False
      from cur show ?thesis
      proof
        assume "rgb info = PNone"
        with False k Some 2 n r show ?thesis
          by (simp add: bindE_def current_entry_def block_differs_def cur_index_def Let_def
              py_eq_triple_None)
      next
        assume "is_float_triple (rgb info)"
        with False k Some 2 n r show ?thesis
          by (auto simp: bindE_def current_entry_def block_differs_def cur_index_def Let_def
              py_eq_triple)
      qed
    qed
  qed
qed

lemma current_loop_distinct:
  "distinct (map fst blocks) \<Longrightarrow> fst ` set acc \<inter> fst ` set blocks = {} \<Longrightarrow>
     current_loop acc blocks = acc @ map (\<lambda>(t, info). (t, current_entry info)) blocks"
proof (induction acc blocks rule: current_loop.induct)
  case (1 current)
  show ?case by simp
next
  case (2 current title info rest)
  have "title \<notin> fst ` set current" using 2(3) by auto
  then have ds: "dict_set current title (current_entry info) = current @ [(title, current_entry info)]"
    by (rule dict_set_fresh)
  have "fst ` set (current @ [(title, current_entry info)]) \<inter> fst ` set rest = {}"
    using 2(2,3) by auto
  with 2 ds show ?case by simp
qed

lemma current_dict:
  assumes "distinct (map fst blocks)" "''RenderRigControls'' \<notin> set (map fst blocks)"
  shows "dict_set (current_loop [] blocks) ''RenderRigControls'' x =
           map (\<lambda>(t, info). (t, current_entry info)) blocks @ [(''RenderRigControls'', x)]"
proof -
  have c: "current_loop [] blocks = map (\<lambda>(t, info). (t, current_entry info)) blocks"
    using current_loop_distinct [of blocks "[]"] assms(1) by simp
  have "''RenderRigControls'' \<notin> fst ` set (map (\<lambda>(t, info). (t, current_entry info)) blocks)"
    using assms(2) by (auto simp: image_iff)
  then show ?thesis unfolding c by (rule dict_set_fresh)
qed

lemma compare_loop_blocks:
  assumes "''RenderRigControls'' \<notin> set (map fst blocks)"
    and "\<forall>(t, info) \<in> set blocks.
            (rgb info = PNone \<or> is_float_triple (rgb info))
            \<and> (case map_of d t of None \<Rightarrow> True | Some v \<Rightarrow> readable_block v)"
  shows "compare_loop (PDict d) (map (\<lambda>(t, info). (t, current_entry info)) blocks @ ys) =
           (if \<exists>(t, info) \<in> set blocks. block_differs info (map_of d t) then Inr True
            else compare_loop (PDict d) ys)"
  using assms
proof (induction blocks)
  case Nil
  show ?case by simp
next
  case (Cons p blocks)
  obtain t info where p: "p = (t, info)" by (cases p)
  have step: "compare_loop (PDict d) ((t, current_entry info) # rest) =
           (if block_differs info (map_of d t) then Inr True else compare_loop (PDict d) rest)"
    for rest
    using Cons.prems unfolding p by (intro compare_step) auto
  have ih: "compare_loop (PDict d) (map (\<lambda>(t, info). (t, current_entry info)) blocks @ ys) =
           (if \<exists>(t, info) \<in> set blocks. block_differs info (map_of d t) then Inr True
            else compare_loop (PDict d) ys)"
    using Cons.prems by (intro Cons.IH) auto
  show ?case unfolding p by (simp add: step ih del: compare_loop.simps)
qed


lemma saved_render_read:
  assumes "saved_render d = Some (w, n)"
  shows "\<exists>rig. py_get (PDict d) ''RenderRigControls'' (PDict []) = Inr rig
           \<and> bindE (py_get rig ''curveWidth'' (PFloat 0)) py_float = Inr w
           \<and> bindE (py_get rig ''sampleRate'' (PInt 1)) py_int = Inr n"
proof (cases "map_of d ''RenderRigControls''")
  case None
  with assms show ?thesis by (simp add: saved_render_def bindE_def)
next
  case (Some rig)
  with assms obtain e where e: "rig = PDict e"
    by (cases rig) (simp_all add: saved_render_def)
  from assms Some e obtain x y where xy: "map_of e ''curveWidth'' = Some x" "map_of e ''sampleRate'' = Some y"
    by (cases "map_of e ''curveWidth''"; cases "map_of e ''sampleRate''")
      (auto simp: saved_render_def split: pyval.splits)
  from assms Some e xy have "x = PFloat w \<and> y = PInt n"
    by (cases x; cases y) (simp_all add: saved_render_def)
  with Some e xy show ?thesis by (simp add: bindE_def)
qed

lemma has_unsaved_changes_spec:
  assumes "comparable d blocks"
  shows "has_unsaved_changes (JsonText (PDict d)) blocks cw sr = Inr (spec_changed d blocks cw sr)"
proof (cases "d = []")
  case True
  then show ?thesis
    by (simp add: has_unsaved_changes_def read_json_config_cases bindE_def spec_changed_def)
next
  case False
  from assms obtain w n where wn: "saved_render d = Some (w, n)"
    by (auto simp: comparable_def)
  from saved_render_read [OF wn] obtain rig where
    rig: "py_get (PDict d) ''RenderRigControls'' (PDict []) = Inr rig"
      "bindE (py_get rig ''curveWidth'' (PFloat 0)) py_float = Inr w"
      "bindE (py_get rig ''sampleRate'' (PInt 1)) py_int = Inr n"
    by blast
  let ?x = "PDict [(''curveWidth'', PFloat cw), (''sampleRate'', PInt sr)]"
  have cur: "dict_set (current_loop [] blocks) ''RenderRigControls'' ?x =
               map (\<lambda>(t, info). (t, current_entry info)) blocks @ [(''RenderRigControls'', ?x)]"
    using assms by (intro current_dict) (simp_all add: comparable_def)
  have loop: "compare_loop (PDict d)
                (map (\<lambda>(t, info). (t, current_entry info)) blocks @ [(''RenderRigControls'', ?x)]) =
              Inr (\<exists>(t, info) \<in> set blocks. block_differs info (map_of d t))"
    using assms by (subst compare_loop_blocks) (auto simp: comparable_def)
  have "has_unsaved_changes (JsonText (PDict d)) blocks cw sr =
          (if w \<noteq> cw then Inr True else if n \<noteq> sr then Inr True
           else Inr (\<exists>(t, info) \<in> set blocks. block_differs info (map_of d t)))"
    unfolding has_unsaved_changes_def read_json_config_cases Let_def cur
    using False rig loop by (simp add: bindE_def del: py_get.simps compare_loop.simps)
  then show ?thesis
    using False wn by (auto simp: spec_changed_def)
qed

lemma compare_step_no_rgb:
  assumes "k \<noteq> ''RenderRigControls''" "slider info < 0" "rgb info = PNone"
    "map_of d k = Some (PDict e)" "map_of e ''index'' = Some (PInt (-1))"
    "map_of e ''rgb'' = None \<or> map_of e ''rgb'' = Some PNone"
  shows "compare_loop (PDict d) ((k, current_entry info) # rest) = compare_loop (PDict d) rest"
proof -
  have "normalize_saved_block (PDict e) = Inr (PDict [(''index'', PInt (-1))])"
    using assms by (intro normalize_custom_no_rgb [of e "-1"]) auto
  moreover have "\<not> 0 \<le> slider info" using assms(2) by simp
  ultimately show ?thesis
    using assms by (auto simp: bindE_def current_entry_def Let_def)
qed

lemma has_unsaved_changes_skip:
  assumes dist: "distinct (map fst (pre @ (k, info) # post))"
    and rrc: "''RenderRigControls'' \<notin> set (map fst (pre @ (k, info) # post))"
    and cur: "slider info = -1" "rgb info = PNone"
    and sv: "map_of d k = Some (PDict e)" "map_of e ''index'' = Some (PInt (-1))"
      "map_of e ''rgb'' = None \<or> map_of e ''rgb'' = Some PNone"
  shows "has_unsaved_changes (JsonText (PDict d)) (pre @ (k, info) # post) cw sr =
         has_unsaved_changes (JsonText (PDict d)) (pre @ post) cw sr"
proof -
  let ?x = "PDict [(''curveWidth'', PFloat cw), (''sampleRate'', PInt sr)]"
  let ?f = "\<lambda>(t, info). (t, current_entry info)"
  have c1: "dict_set (current_loop [] (pre @ (k, info) # post)) ''RenderRigControls'' ?x =
              map ?f (pre @ (k, info) # post) @ [(''RenderRigControls'', ?x)]"
    using dist rrc by (rule current_dict)
  have c2: "dict_set (current_loop [] (pre @ post)) ''RenderRigControls'' ?x =
              map ?f (pre @ post) @ [(''RenderRigControls'', ?x)]"
    using dist rrc by (intro current_dict) auto
  have k: "k \<noteq> ''RenderRigControls''" using rrc by auto
  have step: "compare_loop (PDict d) ((k, current_entry info) # rest) = compare_loop (PDict d) rest"
    for rest
    using k cur sv by (intro compare_step_no_rgb) auto
  have "compare_loop (PDict d) (map ?f (pre @ (k, info) # post) @ [(''RenderRigControls'', ?x)]) =
        compare_loop (PDict d) (map ?f (pre @ post) @ [(''RenderRigControls'', ?x)])"
    by (simp add: compare_loop_append [of _ "map ?f pre"] step
        cong: sum.case_cong bool.case_cong del: compare_loop.simps)
  then show ?thesis
    unfolding has_unsaved_changes_def Let_def c1 c2 read_json_config_cases file_state.case
      bindE_Inr
    by (simp only:)
qed


lemmas diff_eval =
  has_unsaved_changes_def read_json_config_cases bindE_def current_entry_def
  normalize_saved_block_def py_eq.simps(1)

text \<open>
  C3. The comparisons are exact. For comparable blocks and saved document,
  \<^verbatim>\<open>has_unsaved_changes\<close> returns true as soon as the saved curve width or sample
  rate is not equal to the field, and as soon as one component of the saved rgb triple
  of a custom block is not equal to the component of the block's triple, however close
  the two numbers are. The saved triple \<open>[0.1, 0.2, 0.30001]\<close> against the block's
  \<open>[0.1, 0.2, 0.3]\<close> gives true, whatever the render fields.
\<close>

theorem has_unsaved_changes_exact:
  assumes "comparable d blocks" and "saved_render d = Some (w, n)"
    and "(t, info) \<in> set blocks" and "slider info = -1"
    and "rgb info = PList [PFloat r, PFloat g, PFloat b]"
    and "map_of d t = Some (PDict e)" and "map_of e ''index'' = Some (PInt (-1))"
    and "map_of e ''rgb'' = Some (PList [PFloat r', PFloat g', PFloat b'])"
  shows "has_unsaved_changes (JsonText (PDict d)) blocks cw sr =
           Inr (w \<noteq> cw \<or> n \<noteq> sr \<or> r \<noteq> r' \<or> g \<noteq> g' \<or> b \<noteq> b'
                \<or> (\<exists>(t, info) \<in> set blocks. block_differs info (map_of d t)))
    \<and> has_unsaved_changes
          (JsonText (PDict [(''A'', PDict [(''index'', PInt (-1)),
              (''rgb'', PList [PFloat (1/10), PFloat (2/10), PFloat (30001/100000)])])]))
          [(''A'', x\<lparr>slider := -1, rgb := PList [PFloat (1/10), PFloat (2/10), PFloat (3/10)]\<rparr>)]
          cw sr = Inr True"
proof -
  have d: "d \<noteq> []" using assms(6) by auto
  have "block_differs info (map_of d t)" if "r \<noteq> r' \<or> g \<noteq> g' \<or> b \<noteq> b'"
    using that assms(4-8) by (auto simp: block_differs_def cur_index_def)
  with assms(3) have "r \<noteq> r' \<or> g \<noteq> g' \<or> b \<noteq> b' \<Longrightarrow>
      \<exists>(t, info) \<in> set blocks. block_differs info (map_of d t)"
    by blast
  with d assms(2) have "spec_changed d blocks cw sr =
      (w \<noteq> cw \<or> n \<noteq> sr \<or> r \<noteq> r' \<or> g \<noteq> g' \<or> b \<noteq> b'
       \<or> (\<exists>(t, info) \<in> set blocks. block_differs info (map_of d t)))"
    by (auto simp: spec_changed_def)
  with has_unsaved_changes_spec [OF assms(1), of cw sr] show ?thesis
    by (simp add: diff_eval)
qed


text \<open>
  The spec's example satisfies the hypotheses: the saved triple differs from the block's
  in its third component only, the render fields equal the saved defaults, and the
  result is true.
\<close>

theorem has_unsaved_changes_exact_witness:
  "comparable
     [(''A'', PDict [(''index'', PInt (-1)),
                     (''rgb'', PList [PFloat (1/10), PFloat (2/10), PFloat (30001/100000)])])]
     [(''A'', \<lparr>slider = -1, rgb = PList [PFloat (1/10), PFloat (2/10), PFloat (3/10)],
               lastIndex = 17, label = ''Selected: Custom RGB'',
               swatch = Rgb (PList [PFloat (1/10), PFloat (2/10), PFloat (3/10)])\<rparr>)]
   \<and> has_unsaved_changes
       (JsonText (PDict [(''A'', PDict [(''index'', PInt (-1)),
                     (''rgb'', PList [PFloat (1/10), PFloat (2/10), PFloat (30001/100000)])])]))
       [(''A'', \<lparr>slider = -1, rgb = PList [PFloat (1/10), PFloat (2/10), PFloat (3/10)],
                 lastIndex = 17, label = ''Selected: Custom RGB'',
                 swatch = Rgb (PList [PFloat (1/10), PFloat (2/10), PFloat (3/10)])\<rparr>)]
       0 1 = Inr True"
proof -
  let ?e = "[(''index'', PInt (-1)),
             (''rgb'', PList [PFloat (1/10), PFloat (2/10), PFloat (30001/100000)])]"
  let ?d = "[(''A'', PDict ?e)]"
  let ?info = "\<lparr>slider = -1, rgb = PList [PFloat (1/10), PFloat (2/10), PFloat (3/10)],
               lastIndex = 17, label = ''Selected: Custom RGB'',
               swatch = Rgb (PList [PFloat (1/10), PFloat (2/10), PFloat (3/10)])\<rparr>"
  have c: "comparable ?d [(''A'', ?info)]"
    by (simp add: comparable_def saved_render_def readable_block_def)
  have r: "saved_render ?d = Some (0, 1)"
    by (simp add: saved_render_def)
  have "has_unsaved_changes (JsonText (PDict ?d)) [(''A'', ?info)] 0 1 =
          Inr ((0::rat) \<noteq> 0 \<or> (1::int) \<noteq> 1 \<or> (1/10::rat) \<noteq> 1/10 \<or> (2/10::rat) \<noteq> 2/10
               \<or> (3/10::rat) \<noteq> 30001/100000
               \<or> (\<exists>(t, info) \<in> set [(''A'', ?info)]. block_differs info (map_of ?d t)))"
    using has_unsaved_changes_exact [OF c r, of "''A''" ?info "1/10" "2/10" "3/10" ?e
        "1/10" "2/10" "30001/100000" 0 1]
    by simp
  with c show ?thesis by simp
qed

text \<open>
  C10. A block on the custom index that holds no rgb, against a saved record with
  index -1 and no rgb (the key absent or null), is passed over: the result with the
  block is the result without it. So the block never causes a true result by itself,
  and when the other blocks and the render settings match, the result is false.
\<close>

theorem has_unsaved_changes_skips_custom_without_rgb:
  assumes "distinct (map fst (pre @ (k, info) # post))"
    and "''RenderRigControls'' \<notin> set (map fst (pre @ (k, info) # post))"
    and "slider info = -1" and "rgb info = PNone"
    and "map_of d k = Some (PDict e)" and "map_of e ''index'' = Some (PInt (-1))"
    and "map_of e ''rgb'' = None \<or> map_of e ''rgb'' = Some PNone"
  shows "has_unsaved_changes (JsonText (PDict d)) (pre @ (k, info) # post) cw sr =
         has_unsaved_changes (JsonText (PDict d)) (pre @ post) cw sr"
  using assms by (rule has_unsaved_changes_skip)

text \<open>
  The saved document \<^verbatim>\<open>{"A": {"index": 5}, "B": {"index": -1}}\<close>, with block
  \<open>A\<close> on index 5 and block \<open>B\<close> custom without rgb, satisfies the hypotheses: the
  result is that of block \<open>A\<close> alone, false.
\<close>

theorem has_unsaved_changes_skips_custom_without_rgb_witness:
  "has_unsaved_changes
     (JsonText (PDict [(''A'', PDict [(''index'', PInt 5)]), (''B'', PDict [(''index'', PInt (-1))])]))
     [(''A'', \<lparr>slider = 5, rgb = PNone, lastIndex = 5, label = ''Selected: Dark Blue'',
               swatch = IndexColor 5\<rparr>),
      (''B'', \<lparr>slider = -1, rgb = PNone, lastIndex = -1, label = ''Selected: Index -1'',
               swatch = IndexColor (-1)\<rparr>)] 0 1 = Inr False"
proof -
  let ?d = "[(''A'', PDict [(''index'', PInt 5)]), (''B'', PDict [(''index'', PInt (-1))])]"
  let ?a = "(''A'', \<lparr>slider = 5, rgb = PNone, lastIndex = 5, label = ''Selected: Dark Blue'',
               swatch = IndexColor 5\<rparr>)"
  let ?b = "\<lparr>slider = -1, rgb = PNone, lastIndex = -1, label = ''Selected: Index -1'',
               swatch = IndexColor (-1)\<rparr>"
  have "has_unsaved_changes (JsonText (PDict ?d)) ([?a] @ (''B'', ?b) # []) 0 1 =
        has_unsaved_changes (JsonText (PDict ?d)) ([?a] @ []) 0 1"
    by (rule has_unsaved_changes_skips_custom_without_rgb [where e = "[(''index'', PInt (-1))]"])
      simp_all
  also have "\<dots> = Inr False"
    by (simp add: diff_eval)
  finally show ?thesis by simp
qed

section \<open>Properties of the shading pair\<close>
















section \<open>The comparison on normal forms\<close>

lemma py_get_field: "py_get (PDict e) k PNone = Inr (saved_field e k)"
  by (simp add: saved_field_def)

lemma as_float_py_float: "as_float x = Some q \<Longrightarrow> py_float x = Inr q"
  by (cases x) (auto simp: as_float_def split: if_splits)

lemma trunc_nonneg: "0 \<le> q \<Longrightarrow> 0 \<le> trunc q"
  by (simp add: trunc_def)

lemma num_of_ge0: "num_of x = Some q \<Longrightarrow> py_ge0 x = Inr (0 \<le> q)"
  by (cases x) auto

lemma num_of_int: "num_of x = Some q \<Longrightarrow> py_int x = Inr (trunc q)"
  by (cases x) (auto simp: trunc_def)

lemma num_of_not_None: "num_of x = Some q \<Longrightarrow> x \<noteq> PNone"
  by auto

lemma first_three_read:
  assumes "first_three r = Some (a, b, c)"
  shows "bindE (py_index r 0) py_float = Inr a \<and> bindE (py_index r 1) py_float = Inr b
         \<and> bindE (py_index r 2) py_float = Inr c \<and> r \<noteq> PNone"
proof -
  from assms obtain xs where r: "r = PList xs"
    by (cases r) (simp_all add: first_three_def)
  with assms obtain x y z rest where xs: "xs = x # y # z # rest"
    by (cases xs; cases "tl xs"; cases "tl (tl xs)") (auto simp: first_three_def)
  from assms r xs have "as_float x = Some a \<and> as_float y = Some b \<and> as_float z = Some c"
    by (cases "as_float x"; cases "as_float y"; cases "as_float z") (simp_all add: first_three_def)
  with r xs show ?thesis
    by (simp add: bindE_def as_float_py_float)
qed

lemma normalize_normal_form:
  assumes "normalizable_block v"
  shows "normalize_saved_block v = Inr (encode_normal (normal_form v))"
proof (cases "truthy v")
  case False
  then have "normal_form v = NoBlock"
    by (cases v) (simp_all add: normal_form_def saved_field_def)
  with False show ?thesis by (simp add: normalize_saved_block_def)
next
  case True
  with assms obtain e where e: "v = PDict e"
    by (cases v) (simp_all add: normalizable_block_def)
  let ?x = "saved_field e ''index''"
  let ?r = "saved_field e ''rgb''"
  show ?thesis
  proof (cases "?x = PNone")
    case x: True
    with True e show ?thesis
      by (simp add: normalize_saved_block_def py_get_field bindE_Inr normal_form_def
          del: py_get.simps)
  next
    case x: False
    with assms True e obtain q where q: "num_of ?x = Some q"
      by (cases "num_of ?x") (simp_all add: normalizable_block_def)
    show ?thesis
    proof (cases "0 \<le> q")
      case nonneg: True
      with True e x q show ?thesis
        by (simp add: normalize_saved_block_def py_get_field bindE_Inr normal_form_def
            num_of_ge0 num_of_int trunc_nonneg del: py_get.simps)
    next
      case neg: False
      show ?thesis
      proof (cases "?r = PNone")
        case r: True
        then have "first_three ?r = None" by (simp add: first_three_def)
        with True e x q neg r show ?thesis
          by (simp add: normalize_saved_block_def py_get_field bindE_Inr normal_form_def
              num_of_ge0 del: py_get.simps)
      next
        case r: False
        with assms True e x q neg obtain a b c where t: "first_three ?r = Some (a, b, c)"
          by (cases "first_three ?r") (auto simp: normalizable_block_def)
        from first_three_read [OF t] True e x q neg r t show ?thesis
          by (simp add: normalize_saved_block_def py_get_field bindE_Inr normal_form_def
              num_of_ge0 del: py_get.simps)
      qed
    qed
  qed
qed


lemma py_eq_PFloat: "py_eq (PFloat r) x = (num_of x = Some r)"
  by (cases x) (auto simp: py_eq.simps(1))

lemma py_eq_PNone: "py_eq PNone x = (x = PNone)"
  by (cases x) (auto simp: py_eq.simps(1))

lemma py_eq_PList:
  "py_eq (PList xs) c = (case c of PList ys \<Rightarrow> py_eq_list xs ys | _ \<Rightarrow> False)"
  by (cases c) (simp_all add: py_eq.simps(1))

lemma py_eq_triple_matches:
  "py_eq (PList [PFloat r, PFloat g, PFloat b]) cur = rgb_matches (r, g, b) cur"
proof (cases cur)
  case (PList ys)
  show ?thesis
    unfolding PList
    by (cases ys; cases "tl ys"; cases "tl (tl ys)"; cases "tl (tl (tl ys))")
      (auto simp: py_eq_PList py_eq_PFloat rgb_matches_def)
qed (simp_all add: py_eq_PList rgb_matches_def)

lemma compare_step_normal:
  assumes k: "k \<noteq> ''RenderRigControls''"
    and sv: "case map_of d k of None \<Rightarrow> True | Some v \<Rightarrow> normalizable_block v"
  shows "compare_loop (PDict d) ((k, current_entry info) # rest) =
           (if block_changed info (map_of d k) then Inr True else compare_loop (PDict d) rest)"
proof (cases "map_of d k")
  case None
  with k show ?thesis by (simp add: bindE_def normalize_saved_block_def block_changed_def)
next
  case (Some v)
  with sv have n: "normalize_saved_block v = Inr (encode_normal (normal_form v))"
    by (simp add: normalize_normal_form)
  have cur: "py_get (current_entry info) ''index'' PNone = Inr (PInt (cur_index info))"
    "cur_index info = -1 \<Longrightarrow> py_get (current_entry info) ''rgb'' PNone = Inr (rgb info)"
    by (auto simp: current_entry_def cur_index_def Let_def)
  show ?thesis
  proof (cases "normal_form v")
    case NoBlock
    with k Some n show ?thesis
      by (simp add: bindE_Inr block_changed_def)
  next
    case (Indexed m)
    with k Some n cur(1) show ?thesis
      by (simp add: bindE_Inr block_changed_def)
  next
    case (Custom c)
    show ?thesis
    proof (cases c)
      case None
      with Custom k Some n cur show ?thesis
        by (auto simp: bindE_Inr block_changed_def py_eq_PNone)
    next
      case (Some t)
      obtain r g b where t: "t = (r, g, b)" by (cases t)
      from Custom Some t k \<open>map_of d k = Some v\<close> n cur show ?thesis
        by (auto simp: bindE_Inr block_changed_def py_eq_triple_matches)
    qed
  qed
qed

lemma compare_loop_normal:
  assumes "''RenderRigControls'' \<notin> set (map fst blocks)"
    and "\<forall>(t, info) \<in> set blocks.
            case map_of d t of None \<Rightarrow> True | Some v \<Rightarrow> normalizable_block v"
  shows "compare_loop (PDict d) (map (\<lambda>(t, info). (t, current_entry info)) blocks @ ys) =
           (if \<exists>(t, info) \<in> set blocks. block_changed info (map_of d t) then Inr True
            else compare_loop (PDict d) ys)"
  using assms
proof (induction blocks)
  case Nil
  show ?case by simp
next
  case (Cons p blocks)
  obtain t info where p: "p = (t, info)" by (cases p)
  have step: "compare_loop (PDict d) ((t, current_entry info) # rest) =
           (if block_changed info (map_of d t) then Inr True else compare_loop (PDict d) rest)"
    for rest
    using Cons.prems unfolding p by (intro compare_step_normal) auto
  have ih: "compare_loop (PDict d) (map (\<lambda>(t, info). (t, current_entry info)) blocks @ ys) =
           (if \<exists>(t, info) \<in> set blocks. block_changed info (map_of d t) then Inr True
            else compare_loop (PDict d) ys)"
    using Cons.prems by (intro Cons.IH) auto
  show ?case unfolding p by (simp add: step ih del: compare_loop.simps)
qed

lemma has_unsaved_changes_normal:
  assumes "normalizable d blocks"
  shows "has_unsaved_changes (JsonText (PDict d)) blocks cw sr =
           Inr (changed_after_normalizing d blocks cw sr)"
proof (cases "d = []")
  case True
  then show ?thesis
    by (simp add: has_unsaved_changes_def read_json_config_cases bindE_def
        changed_after_normalizing_def)
next
  case False
  from assms obtain w n where wn: "saved_render d = Some (w, n)"
    by (auto simp: normalizable_def)
  from saved_render_read [OF wn] obtain rig where
    rig: "py_get (PDict d) ''RenderRigControls'' (PDict []) = Inr rig"
      "bindE (py_get rig ''curveWidth'' (PFloat 0)) py_float = Inr w"
      "bindE (py_get rig ''sampleRate'' (PInt 1)) py_int = Inr n"
    by blast
  let ?x = "PDict [(''curveWidth'', PFloat cw), (''sampleRate'', PInt sr)]"
  have cur: "dict_set (current_loop [] blocks) ''RenderRigControls'' ?x =
               map (\<lambda>(t, info). (t, current_entry info)) blocks @ [(''RenderRigControls'', ?x)]"
    using assms by (intro current_dict) (simp_all add: normalizable_def)
  have loop: "compare_loop (PDict d)
                (map (\<lambda>(t, info). (t, current_entry info)) blocks @ [(''RenderRigControls'', ?x)]) =
              Inr (\<exists>(t, info) \<in> set blocks. block_changed info (map_of d t))"
    using assms by (subst compare_loop_normal) (auto simp: normalizable_def)
  have "has_unsaved_changes (JsonText (PDict d)) blocks cw sr =
          (if w \<noteq> cw then Inr True else if n \<noteq> sr then Inr True
           else Inr (\<exists>(t, info) \<in> set blocks. block_changed info (map_of d t)))"
    unfolding has_unsaved_changes_def read_json_config_cases Let_def cur
    using False rig loop by (simp add: bindE_def del: py_get.simps compare_loop.simps)
  then show ?thesis
    using False wn by (auto simp: changed_after_normalizing_def)
qed


lemma readable_normalizable: "readable_block v \<Longrightarrow> normalizable_block v"
proof (erule readable_block_fields)
  fix e i
  assume "v = PDict e" "map_of e ''index'' = Some (PInt i)" "0 \<le> i" "i \<le> 31"
  then show ?thesis by (simp add: normalizable_block_def saved_field_def)
next
  fix e r
  assume a: "v = PDict e" "map_of e ''index'' = Some (PInt (-1))" "map_of e ''rgb'' = Some r"
    "is_float_triple r"
  from a(4) have "first_three r \<noteq> None"
    by (rule is_float_tripleE) (simp add: first_three_def as_float_def)
  with a show ?thesis by (simp add: normalizable_block_def saved_field_def)
qed

lemma comparable_normalizable: "comparable d blocks \<Longrightarrow> normalizable d blocks"
  by (auto simp: comparable_def normalizable_def readable_normalizable split: option.splits)

text \<open>
  C1. For blocks and a saved document that have normal forms,
  \<^verbatim>\<open>normalize_saved_block\<close> returns the normal form of each saved value (a palette
  index as an integer with every other key dropped, or the custom index -1 with a triple
  of floats, or no record), and \<^verbatim>\<open>has_unsaved_changes\<close> returns what the spec's
  algorithm says on the normal forms: true when the document is empty, when the render
  settings differ, or when for some block the title is absent from the document, the
  indices differ, or both are custom and the rgb values differ in some component; false
  otherwise. In particular a block on index 5 against the saved
  \<^verbatim>\<open>{"A": {"index": 5}}\<close> gives false, with the render fields on the defaults of a
  document without render record, and with a render record equal to the fields.
\<close>

theorem has_unsaved_changes_compares:
  assumes "normalizable d blocks"
  shows "has_unsaved_changes (JsonText (PDict d)) blocks cw sr
           = Inr (changed_after_normalizing d blocks cw sr)
    \<and> (normalizable_block v \<longrightarrow>
         normalize_saved_block v = Inr (encode_normal (normal_form v)))
    \<and> has_unsaved_changes (JsonText (PDict [(''A'', PDict [(''index'', PInt 5)])]))
          [(''A'', info\<lparr>slider := 5\<rparr>)] 0 1 = Inr False
    \<and> has_unsaved_changes
          (JsonText (PDict [(''A'', PDict [(''index'', PInt 5)]),
                            (''RenderRigControls'',
                             PDict [(''curveWidth'', PFloat cw), (''sampleRate'', PInt sr)])]))
          [(''A'', info\<lparr>slider := 5\<rparr>)] cw sr = Inr False"
  using has_unsaved_changes_normal [OF assms] normalize_normal_form [of v]
  by (simp add: diff_eval)

text \<open>
  The saved document \<^verbatim>\<open>{"A": {"index": 5}}\<close> and a block on index 5 have normal
  forms, and the theorem gives false for them; with the block on index 6 it gives true.
  A saved document where normalizing shows: block \<open>A\<close> saved with index 5.9, a name and
  an rgb, block \<open>B\<close> saved with index -2 and an rgb list of four numbers. Their normal
  forms are \<^verbatim>\<open>{"index": 5}\<close> and \<^verbatim>\<open>{"index": -1, "rgb": [1.0, 0.0, 0.5]}\<close>, and
  against block \<open>A\<close> on index 5 and block \<open>B\<close> custom with that triple the result is
  false.
\<close>

theorem has_unsaved_changes_compares_witness:
  "normalizable [(''A'', PDict [(''index'', PInt 5)])]
     [(''A'', \<lparr>slider = 5, rgb = PNone, lastIndex = 5, label = ''Selected: Dark Blue'',
               swatch = IndexColor 5\<rparr>)]
   \<and> has_unsaved_changes (JsonText (PDict [(''A'', PDict [(''index'', PInt 5)])]))
        [(''A'', \<lparr>slider = 5, rgb = PNone, lastIndex = 5, label = ''Selected: Dark Blue'',
                  swatch = IndexColor 5\<rparr>)] 0 1 = Inr False
   \<and> has_unsaved_changes (JsonText (PDict [(''A'', PDict [(''index'', PInt 5)])]))
        [(''A'', \<lparr>slider = 6, rgb = PNone, lastIndex = 6, label = ''Selected: Bright Blue'',
                  swatch = IndexColor 6\<rparr>)] 0 1 = Inr True
   \<and> normalizable
        [(''A'', PDict [(''index'', PFloat (59/10)), (''name'', PStr ''Dark Blue''),
                        (''rgb'', PList [PInt 1, PInt 2, PInt 3])]),
         (''B'', PDict [(''index'', PInt (-2)),
                        (''rgb'', PList [PInt 1, PInt 0, PFloat (1/2), PInt 9])])]
        [(''A'', \<lparr>slider = 5, rgb = PNone, lastIndex = 5, label = ''Selected: Dark Blue'',
                  swatch = IndexColor 5\<rparr>),
         (''B'', \<lparr>slider = -1, rgb = PList [PFloat 1, PFloat 0, PFloat (1/2)], lastIndex = 17,
                  label = ''Selected: Custom RGB'',
                  swatch = Rgb (PList [PFloat 1, PFloat 0, PFloat (1/2)])\<rparr>)]
   \<and> normalize_saved_block
        (PDict [(''index'', PFloat (59/10)), (''name'', PStr ''Dark Blue''),
                (''rgb'', PList [PInt 1, PInt 2, PInt 3])])
       = Inr (PDict [(''index'', PInt 5)])
   \<and> normalize_saved_block
        (PDict [(''index'', PInt (-2)), (''rgb'', PList [PInt 1, PInt 0, PFloat (1/2), PInt 9])])
       = Inr (PDict [(''index'', PInt (-1)), (''rgb'', PList [PFloat 1, PFloat 0, PFloat (1/2)])])
   \<and> has_unsaved_changes
        (JsonText (PDict
          [(''A'', PDict [(''index'', PFloat (59/10)), (''name'', PStr ''Dark Blue''),
                          (''rgb'', PList [PInt 1, PInt 2, PInt 3])]),
           (''B'', PDict [(''index'', PInt (-2)),
                          (''rgb'', PList [PInt 1, PInt 0, PFloat (1/2), PInt 9])])]))
        [(''A'', \<lparr>slider = 5, rgb = PNone, lastIndex = 5, label = ''Selected: Dark Blue'',
                  swatch = IndexColor 5\<rparr>),
         (''B'', \<lparr>slider = -1, rgb = PList [PFloat 1, PFloat 0, PFloat (1/2)], lastIndex = 17,
                  label = ''Selected: Custom RGB'',
                  swatch = Rgb (PList [PFloat 1, PFloat 0, PFloat (1/2)])\<rparr>)] 0 1 = Inr False"
proof -
  let ?d = "[(''A'', PDict [(''index'', PInt 5)])]"
  let ?b5 = "[(''A'', \<lparr>slider = 5, rgb = PNone, lastIndex = 5, label = ''Selected: Dark Blue'',
                        swatch = IndexColor 5\<rparr>)]"
  let ?b6 = "[(''A'', \<lparr>slider = 6, rgb = PNone, lastIndex = 6, label = ''Selected: Bright Blue'',
                        swatch = IndexColor 6\<rparr>)]"
  let ?va = "PDict [(''index'', PFloat (59/10)), (''name'', PStr ''Dark Blue''),
                    (''rgb'', PList [PInt 1, PInt 2, PInt 3])]"
  let ?vb = "PDict [(''index'', PInt (-2)), (''rgb'', PList [PInt 1, PInt 0, PFloat (1/2), PInt 9])]"
  let ?d2 = "[(''A'', ?va), (''B'', ?vb)]"
  let ?b2 = "[(''A'', \<lparr>slider = 5, rgb = PNone, lastIndex = 5, label = ''Selected: Dark Blue'',
                  swatch = IndexColor 5\<rparr>),
         (''B'', \<lparr>slider = -1, rgb = PList [PFloat 1, PFloat 0, PFloat (1/2)], lastIndex = 17,
                  label = ''Selected: Custom RGB'',
                  swatch = Rgb (PList [PFloat 1, PFloat 0, PFloat (1/2)])\<rparr>)]"
  have c5: "normalizable ?d ?b5" by code_simp
  have c6: "normalizable ?d ?b6" by code_simp
  have c2: "normalizable ?d2 ?b2" by code_simp
  have s5: "\<not> changed_after_normalizing ?d ?b5 0 1" by code_simp
  have s6: "changed_after_normalizing ?d ?b6 0 1" by code_simp
  have s2: "\<not> changed_after_normalizing ?d2 ?b2 0 1" by code_simp
  have na: "normalizable_block ?va" by code_simp
  have nb: "normalizable_block ?vb" by code_simp
  have fa: "encode_normal (normal_form ?va) = PDict [(''index'', PInt 5)]" by code_simp
  have fb: "encode_normal (normal_form ?vb)
              = PDict [(''index'', PInt (-1)), (''rgb'', PList [PFloat 1, PFloat 0, PFloat (1/2)])]"
    by code_simp
  have r5: "has_unsaved_changes (JsonText (PDict ?d)) ?b5 0 1 = Inr False"
    using has_unsaved_changes_compares [OF c5, of 0 1] s5 by simp
  have r6: "has_unsaved_changes (JsonText (PDict ?d)) ?b6 0 1 = Inr True"
    using has_unsaved_changes_compares [OF c6, of 0 1] s6 by simp
  have r2: "has_unsaved_changes (JsonText (PDict ?d2)) ?b2 0 1 = Inr False"
    using has_unsaved_changes_compares [OF c2, of 0 1] s2 by simp
  have ra: "normalize_saved_block ?va = Inr (PDict [(''index'', PInt 5)])"
    using has_unsaved_changes_compares [OF c2, of 0 1 ?va] na unfolding fa by blast
  have rb: "normalize_saved_block ?vb
              = Inr (PDict [(''index'', PInt (-1)), (''rgb'', PList [PFloat 1, PFloat 0, PFloat (1/2)])])"
    using has_unsaved_changes_compares [OF c2, of 0 1 ?vb] nb unfolding fb by blast
  from c5 r5 r6 c2 ra rb r2 show ?thesis by blast
qed

end
